theory Spec2Isabelle
  imports Complex_Main "HOL-Library.Log_Nat"
begin

section \<open>Python values and exceptions\<close>

text \<open>
  The module \<^verbatim>\<open>bytenet_antibody_only.py\<close> is embedded function by function.
  An exception is a value of type \<open>error\<close>, named after the Python exception class and
  carrying the start of its message; a function that can raise returns \<open>error + 'a\<close>
  with \<open>Inl\<close> for the exception.
\<close>

datatype error =
    RuntimeError string
  | ValueError string
  | OverflowError string
  | ZeroDivisionError string
  | IndexError string
  | TypeError string

text \<open>
  A float64 has a significand of 53 bits. \<open>round64 r\<close> is the float64 nearest to the real
  \<open>r\<close>, ties going to the even significand: in the binade \<open>2 ^ e \<le> \<bar>r\<bar> < 2 ^ (e + 1)\<close>
  the floats are the multiples of \<open>2 ^ (e - 52)\<close>. Overflow and subnormal numbers do not
  occur for the arguments below (integers below \<open>2 ^ 64\<close> and their logarithms).
\<close>

definition round_half_even :: "real \<Rightarrow> int" where
  "round_half_even q =
     (let f = \<lfloor>q\<rfloor>; d = q - of_int f
      in if d < 1 / 2 then f
         else if 1 / 2 < d then f + 1
         else if even f then f else f + 1)"

definition round64 :: "real \<Rightarrow> real" where
  "round64 r =
     (if r = 0 then 0
      else let u = 2 powr (of_int \<lfloor>log 2 \<bar>r\<bar>\<rfloor> - 52)
           in of_int (round_half_even (r / u)) * u)"

text \<open>
  \<^verbatim>\<open>np.log2\<close> of a Python integer. numpy converts the integer to an \<open>int64\<close> or
  \<open>uint64\<close> array element; an integer outside \<open>- 2 ^ 63 \<le> x < 2 ^ 64\<close> becomes a Python
  object, on which the ufunc has no loop, and the call raises \<open>TypeError\<close>. Inside that
  range the integer is converted to float64 and the result is a float64: \<open>nan\<close> for a
  negative argument, \<open>-inf\<close> for zero (both with a warning only, no exception), and
  otherwise the base-2 logarithm of the converted argument, taken here as correctly rounded.
\<close>

datatype np_float = NaN | NegInf | Finite real

definition np_log2 :: "int \<Rightarrow> error + np_float" where
  "np_log2 x =
     (if x < - (2 ^ 63) \<or> 2 ^ 64 \<le> x
      then Inl (TypeError ''loop of ufunc does not support argument 0 of type int'')
      else if x < 0 then Inr NaN
      else if x = 0 then Inr NegInf
      else Inr (Finite (round64 (log 2 (round64 (real_of_int x))))))"

text \<open>\<^verbatim>\<open>int(f)\<close> on a float truncates towards zero and raises on \<open>nan\<close> and on an infinity.\<close>

fun py_int :: "np_float \<Rightarrow> error + int" where
  "py_int NaN = Inl (ValueError ''cannot convert float NaN to integer'')"
| "py_int NegInf = Inl (OverflowError ''cannot convert float infinity to integer'')"
| "py_int (Finite r) = Inr (if 0 \<le> r then \<lfloor>r\<rfloor> else \<lceil>r\<rceil>)"

text \<open>\<^verbatim>\<open>a % b\<close> on integers: the result has the sign of \<open>b\<close>, as \<open>mod\<close> on \<open>int\<close> has.\<close>

definition py_mod :: "int \<Rightarrow> int \<Rightarrow> error + int" where
  "py_mod a b =
     (if b = 0 then Inl (ZeroDivisionError ''integer modulo by zero'') else Inr (a mod b))"

text \<open>\<^verbatim>\<open>range(n)\<close>: empty when \<open>n \<le> 0\<close>.\<close>

definition py_range :: "int \<Rightarrow> int list" where
  "py_range n = map int [0..<nat n]"

text \<open>A list comprehension whose element expression can raise stops at the first exception.\<close>

fun map_result :: "('a \<Rightarrow> error + 'b) \<Rightarrow> 'a list \<Rightarrow> error + 'b list" where
  "map_result f [] = Inr []"
| "map_result f (x # xs) =
     (case f x of
        Inl e \<Rightarrow> Inl e
      | Inr y \<Rightarrow> (case map_result f xs of Inl e \<Rightarrow> Inl e | Inr ys \<Rightarrow> Inr (y # ys)))"

section \<open>The dilation schedule\<close>

text \<open>
  Lines 194 and 195 of the constructor:
  \<^verbatim>\<open>
  dil_log2 = int(np.log2(dil_factor)) + 1
  dilations = [2 ** (n % dil_log2) for n in range(n_layers)]
  \<close>
  \<open>dil_factor\<close> is an \<open>int\<close>, as the class docstring declares it. Whenever the first line
  returns, \<open>dil_log2\<close> is at least 1 (lemma \<open>dil_log2_ge_1\<close> below), so the remainder
  \<open>n % dil_log2\<close> is never negative and \<open>2 ** _\<close> stays an integer power.
\<close>

definition dil_log2 :: "int \<Rightarrow> error + int" where
  "dil_log2 fac =
     (case np_log2 fac of
        Inl e \<Rightarrow> Inl e
      | Inr f \<Rightarrow> (case py_int f of Inl e \<Rightarrow> Inl e | Inr l \<Rightarrow> Inr (l + 1)))"

definition dilation_at :: "int \<Rightarrow> int \<Rightarrow> error + int" where
  "dilation_at period n =
     (case py_mod n period of Inl e \<Rightarrow> Inl e | Inr r \<Rightarrow> Inr (2 ^ nat r))"

definition dilations :: "int \<Rightarrow> int \<Rightarrow> error + int list" where
  "dilations lay fac =
     (case dil_log2 fac of
        Inl e \<Rightarrow> Inl e
      | Inr period \<Rightarrow> map_result (dilation_at period) (py_range lay))"

text \<open>
  The schedule in the specification's words, for comparison with \<open>dilations\<close>:
  \<open>period = floor (log2 dil_factor) + 1\<close> over the real logarithm, and for the layer index
  \<open>n\<close> in \<open>0 .. n_layers - 1\<close> the dilation \<open>2 ^ (n mod period)\<close>.
\<close>

definition dilation_schedule_spec :: "int \<Rightarrow> int \<Rightarrow> int list" where
  "dilation_schedule_spec lay fac =
     map (\<lambda>n. 2 ^ (n mod nat (\<lfloor>log 2 (real_of_int fac)\<rfloor> + 1))) [0..<nat lay]"

section \<open>Tensors and the layers of torch\<close>

text \<open>
  A tensor is modelled by its shape and by the symbolic expression that computed it: every
  layer application is recorded together with the layer object applied. Each object that
  owns parameters carries the index of its creation (\<open>params\<close>): after
  \<^verbatim>\<open>torch.manual_seed(123)\<close> the initial parameters are determined by the order in which
  the layers are created, and a constructor takes the next free index and returns the one
  after it. Argument checks inside torch's own constructors (sizes that are not positive,
  a group count that does not divide the channel counts) are not modelled; the theorems
  below that need such sizes state them as hypotheses.
\<close>

record Conv1d =
  in_channels :: int
  out_channels :: int
  conv_kernel_size :: int
  stride :: int
  padding :: int
  dilation :: int
  groups :: int
  bias :: bool
  spectral_norm :: bool
  conv_params :: nat

record LayerNorm =
  normalized_shape :: int
  ln_params :: nat

record Linear =
  in_features :: int
  out_features :: int
  lin_spectral_norm :: bool
  lin_params :: nat

text \<open>
  Modelled from the spec: \<^verbatim>\<open>VanillaRFFLayer\<close> (module \<^verbatim>\<open>classic_rffs\<close>, not part of the
  source file). Its constructor arguments are those of the spec's
  \<^verbatim>\<open>construct(in_features, feature_count, out_targets, covariance_momentum, ridge_penalty,
  likelihood_kind, random_seed)\<close>; its calibration state is abstracted to the number of
  precision updates it has performed.
\<close>

record VanillaRFFLayer =
  rff_in_features :: int
  RFFs :: int
  out_targets :: int
  gp_cov_momentum :: real
  gp_ridge_penalty :: real
  likelihood :: string
  random_seed :: int
  precision_updates :: nat

datatype expr =
    Leaf nat
  | TransposeOp expr
  | Conv1dOp Conv1d expr
  | LayerNormOp LayerNorm expr
  | GELUOp expr
  | AddOp expr expr
  | DropoutOp real expr
  | MeanOp expr
  | LinearOp Linear expr
  | RFFMeanOp VanillaRFFLayer expr
  | RFFVarOp VanillaRFFLayer expr
  | SqueezeOp expr
  | SigmoidOp expr
  | SoftmaxOp expr

record tensor =
  shape :: "int list"
  val :: expr

definition and_then :: "error + 'a \<Rightarrow> ('a \<Rightarrow> error + 'b) \<Rightarrow> error + 'b" where
  "and_then m f = (case m of Inl e \<Rightarrow> Inl e | Inr v \<Rightarrow> f v)"

definition result_shape :: "error + tensor \<Rightarrow> error + int list" where
  "result_shape r = (case r of Inl e \<Rightarrow> Inl e | Inr t \<Rightarrow> Inr (shape t))"

text \<open>\<^verbatim>\<open>x.transpose(1, 2)\<close>: needs at least three axes.\<close>

definition transpose12 :: "tensor \<Rightarrow> error + tensor" where
  "transpose12 x =
     (case shape x of
        a # b # c # rest \<Rightarrow> Inr \<lparr>shape = a # c # b # rest, val = TransposeOp (val x)\<rparr>
      | _ \<Rightarrow> Inl (IndexError ''Dimension out of range''))"

text \<open>
  \<^verbatim>\<open>torch.nn.Conv1d.forward\<close> on a channel-first input \<open>(N, C, L)\<close> or \<open>(C, L)\<close>: the
  output length is \<open>(L + 2 * padding - dilation * (kernel_size - 1) - 1) // stride + 1\<close>,
  and the padded input must not be shorter than the dilated kernel.
\<close>

definition conv_out_length :: "Conv1d \<Rightarrow> int \<Rightarrow> error + int" where
  "conv_out_length cv l =
     (let padded = l + 2 * padding cv;
          span = dilation cv * (conv_kernel_size cv - 1) + 1
      in if padded < span
         then Inl (RuntimeError ''Kernel size can not be greater than actual input size'')
         else Inr ((padded - span) div stride cv + 1))"

definition Conv1d_forward :: "Conv1d \<Rightarrow> tensor \<Rightarrow> error + tensor" where
  "Conv1d_forward cv x =
     (case shape x of
        [n, c, l] \<Rightarrow>
          if c \<noteq> in_channels cv
          then Inl (RuntimeError ''input channels do not match the weight'')
          else and_then (conv_out_length cv l)
                 (\<lambda>l'. Inr \<lparr>shape = [n, out_channels cv, l'], val = Conv1dOp cv (val x)\<rparr>)
      | [c, l] \<Rightarrow>
          if c \<noteq> in_channels cv
          then Inl (RuntimeError ''input channels do not match the weight'')
          else and_then (conv_out_length cv l)
                 (\<lambda>l'. Inr \<lparr>shape = [out_channels cv, l'], val = Conv1dOp cv (val x)\<rparr>)
      | _ \<Rightarrow> Inl (RuntimeError ''Expected 2D (unbatched) or 3D (batched) input to conv1d''))"

definition Conv1d_init ::
  "int \<Rightarrow> int \<Rightarrow> int \<Rightarrow> int \<Rightarrow> int \<Rightarrow> int \<Rightarrow> int \<Rightarrow> bool \<Rightarrow> nat \<Rightarrow> Conv1d \<times> nat" where
  "Conv1d_init c_in c_out k s p d g b next =
     (\<lparr>in_channels = c_in, out_channels = c_out, conv_kernel_size = k, stride = s,
       padding = p, dilation = d, groups = g, bias = b, spectral_norm = False,
       conv_params = next\<rparr>, Suc next)"

definition SpectralNorm :: "Conv1d \<Rightarrow> Conv1d" where
  "SpectralNorm cv = cv\<lparr>spectral_norm := True\<rparr>"

definition LayerNorm_init :: "int \<Rightarrow> nat \<Rightarrow> LayerNorm \<times> nat" where
  "LayerNorm_init d next = (\<lparr>normalized_shape = d, ln_params = next\<rparr>, Suc next)"

definition LayerNorm_forward :: "LayerNorm \<Rightarrow> tensor \<Rightarrow> error + tensor" where
  "LayerNorm_forward lnorm x =
     (if shape x \<noteq> [] \<and> last (shape x) = normalized_shape lnorm
      then Inr \<lparr>shape = shape x, val = LayerNormOp lnorm (val x)\<rparr>
      else Inl (RuntimeError ''Given normalized_shape, expected input with matching last axis''))"

definition gelu :: "tensor \<Rightarrow> tensor" where
  "gelu x = \<lparr>shape = shape x, val = GELUOp (val x)\<rparr>"

definition Linear_init :: "int \<Rightarrow> int \<Rightarrow> nat \<Rightarrow> Linear \<times> nat" where
  "Linear_init d_i d_o next =
     (\<lparr>in_features = d_i, out_features = d_o, lin_spectral_norm = False, lin_params = next\<rparr>,
      Suc next)"

definition SpectralNorm_linear :: "Linear \<Rightarrow> Linear" where
  "SpectralNorm_linear l = l\<lparr>lin_spectral_norm := True\<rparr>"

definition Linear_forward :: "Linear \<Rightarrow> tensor \<Rightarrow> error + tensor" where
  "Linear_forward l x =
     (if shape x \<noteq> [] \<and> last (shape x) = in_features l
      then Inr \<lparr>shape = butlast (shape x) @ [out_features l], val = LinearOp l (val x)\<rparr>
      else Inl (RuntimeError ''mat1 and mat2 shapes cannot be multiplied''))"

text \<open>
  Elementwise \<^verbatim>\<open>x + y\<close> broadcasts: the shapes are aligned at the last axis, and two
  extents are compatible when they are equal or one of them is 1.
\<close>

fun broadcast_rev :: "int list \<Rightarrow> int list \<Rightarrow> int list option" where
  "broadcast_rev [] ys = Some ys"
| "broadcast_rev xs [] = Some xs"
| "broadcast_rev (x # xs) (y # ys) =
     (if x = y \<or> y = 1 then map_option ((#) x) (broadcast_rev xs ys)
      else if x = 1 then map_option ((#) y) (broadcast_rev xs ys)
      else None)"

definition add :: "tensor \<Rightarrow> tensor \<Rightarrow> error + tensor" where
  "add x y =
     (case broadcast_rev (rev (shape x)) (rev (shape y)) of
        None \<Rightarrow> Inl (RuntimeError ''The size of tensor a must match the size of tensor b'')
      | Some s \<Rightarrow> Inr \<lparr>shape = rev s, val = AddOp (val x) (val y)\<rparr>)"

text \<open>\<^verbatim>\<open>F.dropout(x, p)\<close> rejects a probability outside \<open>[0, 1]\<close>.\<close>

definition F_dropout :: "tensor \<Rightarrow> real \<Rightarrow> error + tensor" where
  "F_dropout x p =
     (if p < 0 \<or> 1 < p
      then Inl (ValueError ''dropout probability has to be between 0 and 1'')
      else Inr \<lparr>shape = shape x, val = DropoutOp p (val x)\<rparr>)"

text \<open>\<^verbatim>\<open>torch.mean(x, dim=1)\<close> and \<^verbatim>\<open>x.squeeze(1)\<close> need a second axis.\<close>

definition mean_dim1 :: "tensor \<Rightarrow> error + tensor" where
  "mean_dim1 x =
     (case shape x of
        a # b # rest \<Rightarrow> Inr \<lparr>shape = a # rest, val = MeanOp (val x)\<rparr>
      | _ \<Rightarrow> Inl (IndexError ''Dimension out of range''))"

definition squeeze1 :: "tensor \<Rightarrow> error + tensor" where
  "squeeze1 x =
     (case shape x of
        a # b # rest \<Rightarrow>
          Inr \<lparr>shape = (if b = 1 then a # rest else a # b # rest), val = SqueezeOp (val x)\<rparr>
      | _ \<Rightarrow> Inl (IndexError ''Dimension out of range''))"

definition F_sigmoid :: "tensor \<Rightarrow> tensor" where
  "F_sigmoid x = \<lparr>shape = shape x, val = SigmoidOp (val x)\<rparr>"

text \<open>\<^verbatim>\<open>F.softmax(x)\<close> with no \<open>dim\<close> normalises a two-axis input along its last axis.\<close>

definition F_softmax :: "tensor \<Rightarrow> tensor" where
  "F_softmax x = \<lparr>shape = shape x, val = SoftmaxOp (val x)\<rparr>"

section \<open>ConvLayer\<close>

text \<open>
  \<^verbatim>\<open>ConvLayer.__init__\<close> computes \<^verbatim>\<open>padding = dilation * (kernel_size - 1) // 2\<close> and
  hands everything to \<^verbatim>\<open>Conv1d.__init__\<close>; \<^verbatim>\<open>ConvLayer.forward\<close> transposes, convolves
  and transposes back.
\<close>

definition ConvLayer_init ::
  "int \<Rightarrow> int \<Rightarrow> int \<Rightarrow> int \<Rightarrow> int \<Rightarrow> int \<Rightarrow> bool \<Rightarrow> nat \<Rightarrow> Conv1d \<times> nat" where
  "ConvLayer_init c_in c_out k s d g b next =
     (let pad = d * (k - 1) div 2
      in Conv1d_init c_in c_out k s pad d g b next)"

definition ConvLayer_forward :: "Conv1d \<Rightarrow> tensor \<Rightarrow> error + tensor" where
  "ConvLayer_forward cv xdata =
     and_then (transpose12 xdata) (\<lambda>t.
     and_then (Conv1d_forward cv t) transpose12)"

section \<open>PositionFeedForward\<close>

record PositionFeedForward =
  pff_conv :: Conv1d
  factorized :: bool

definition PositionFeedForward_init ::
  "int \<Rightarrow> int \<Rightarrow> bool \<Rightarrow> nat \<Rightarrow> PositionFeedForward \<times> nat" where
  "PositionFeedForward_init d_i d_o use_sn next =
     (let (cv, next') = Conv1d_init d_i d_o 1 1 0 1 1 True next
      in (\<lparr>pff_conv = (if use_sn then SpectralNorm cv else cv), factorized = False\<rparr>, next'))"

definition PositionFeedForward_forward :: "PositionFeedForward \<Rightarrow> tensor \<Rightarrow> error + tensor" where
  "PositionFeedForward_forward ff xdata =
     and_then (transpose12 xdata) (\<lambda>t.
     and_then (Conv1d_forward (pff_conv ff) t) transpose12)"

section \<open>ByteNetBlock\<close>

datatype module = LayerNormM LayerNorm | GELU | PFF PositionFeedForward

fun module_forward :: "module \<Rightarrow> tensor \<Rightarrow> error + tensor" where
  "module_forward (LayerNormM lnorm) x = LayerNorm_forward lnorm x"
| "module_forward GELU x = Inr (gelu x)"
| "module_forward (PFF ff) x = PositionFeedForward_forward ff x"

text \<open>\<^verbatim>\<open>torch.nn.Sequential\<close> applies its members in order.\<close>

fun Sequential_forward :: "module list \<Rightarrow> tensor \<Rightarrow> error + tensor" where
  "Sequential_forward [] x = Inr x"
| "Sequential_forward (m # ms) x = and_then (module_forward m x) (Sequential_forward ms)"

record ByteNetBlock =
  conv :: Conv1d
  sequence1 :: "module list"
  sequence2 :: "module list"

definition ByteNetBlock_init ::
  "int \<Rightarrow> int \<Rightarrow> int \<Rightarrow> int \<Rightarrow> int \<Rightarrow> int \<Rightarrow> bool \<Rightarrow> nat \<Rightarrow> ByteNetBlock \<times> nat" where
  "ByteNetBlock_init d_i d_hid d_o k d g use_sn next =
     (let (cv, n1) = ConvLayer_init d_hid d_hid k 1 d g True next;
          (ln1, n2) = LayerNorm_init d_i n1;
          (ff1, n3) = PositionFeedForward_init d_i d_hid use_sn n2;
          (ln2, n4) = LayerNorm_init d_hid n3;
          (ln3, n5) = LayerNorm_init d_hid n4;
          (ff2, n6) = PositionFeedForward_init d_hid d_o use_sn n5
      in (\<lparr>conv = (if use_sn then SpectralNorm cv else cv),
           sequence1 = [LayerNormM ln1, GELU, PFF ff1, LayerNormM ln2, GELU],
           sequence2 = [LayerNormM ln3, GELU, PFF ff2]\<rparr>, n6))"

definition ByteNetBlock_forward :: "ByteNetBlock \<Rightarrow> tensor \<Rightarrow> error + tensor" where
  "ByteNetBlock_forward blk xdata =
     and_then (Sequential_forward (sequence1 blk) xdata) (\<lambda>h.
     and_then (ConvLayer_forward (conv blk) h) (\<lambda>c.
     and_then (Sequential_forward (sequence2 blk) c) (\<lambda>y.
     add xdata y)))"

section \<open>The output head\<close>

datatype prediction = Preds tensor | PredsVar tensor tensor

text \<open>
  Modelled from the spec: the constructor and the forward pass of \<^verbatim>\<open>VanillaRFFLayer\<close>,
  whose code is not part of the source file. Following the spec's interface
  \<^verbatim>\<open>construct(in_features, feature_count, out_targets, covariance_momentum, ridge_penalty, likelihood_kind, random_seed) -> head\<close>,
  \<^verbatim>\<open>head.forward(representation) -> prediction\<close>,
  \<^verbatim>\<open>head.forward(representation, update_precision: bool) -> prediction\<close> and
  \<^verbatim>\<open>head.forward(representation, get_var: bool) -> (prediction, variance)\<close>:
  an argument that the caller does not pass is \<open>None\<close> and counts as \<open>False\<close>; the
  calibration state is updated exactly when \<open>update_precision\<close> is true; the prediction
  has one column per output target and the variance has shape \<open>(batch,)\<close>.

  The specification's \<open>construct\<close> names the arguments only. The one argument check of the
  class that the constructor of \<^verbatim>\<open>ByteNetPairedSeqs\<close> can reach is kept: a
  \<open>multiclass\<close> likelihood needs more than one output target, and with \<open>out_targets = 1\<close>
  the class raises \<open>ValueError\<close> (the message is paraphrased).
\<close>

definition VanillaRFFLayer_init ::
  "int \<Rightarrow> int \<Rightarrow> int \<Rightarrow> real \<Rightarrow> real \<Rightarrow> string \<Rightarrow> int \<Rightarrow> error + VanillaRFFLayer" where
  "VanillaRFFLayer_init d_i n_rffs n_out momentum ridge lik seed =
     (if lik = ''multiclass'' \<and> n_out = 1
      then Inl (ValueError ''multiclass likelihood needs more than one out target'')
      else Inr \<lparr>rff_in_features = d_i, RFFs = n_rffs, out_targets = n_out,
                gp_cov_momentum = momentum, gp_ridge_penalty = ridge, likelihood = lik,
                random_seed = seed, precision_updates = 0\<rparr>)"

text \<open>
  Modelled from the spec: \<^verbatim>\<open>VanillaRFFLayer.forward\<close>, called as
  \<^verbatim>\<open>head(representation)\<close>, \<^verbatim>\<open>head(representation, update_precision)\<close> or
  \<^verbatim>\<open>head(representation, get_var=True)\<close>. The input is a batch of representations of
  width \<open>in_features\<close>.
\<close>

definition VanillaRFFLayer_forward ::
  "VanillaRFFLayer \<Rightarrow> tensor \<Rightarrow> bool option \<Rightarrow> bool option \<Rightarrow>
     error + (prediction \<times> VanillaRFFLayer)" where
  "VanillaRFFLayer_forward gp x update_precision get_var =
     (case shape x of
        [b, f] \<Rightarrow>
          if f \<noteq> rff_in_features gp
          then Inl (RuntimeError ''Unexpected input shape supplied.'')
          else
            let gp' = (if update_precision = Some True
                       then gp\<lparr>precision_updates := Suc (precision_updates gp)\<rparr> else gp);
                preds = \<lparr>shape = [b, out_targets gp'], val = RFFMeanOp gp' (val x)\<rparr>
            in if get_var = Some True
               then Inr (PredsVar preds \<lparr>shape = [b], val = RFFVarOp gp' (val x)\<rparr>, gp')
               else Inr (Preds preds, gp')
      | _ \<Rightarrow> Inl (RuntimeError ''Unexpected input shape supplied.''))"

datatype head = GP VanillaRFFLayer | Lin Linear

text \<open>
  \<^verbatim>\<open>self.out_layer(x, ...)\<close>: \<^verbatim>\<open>torch.nn.Linear.forward\<close> takes the input only, so any
  further argument is a \<open>TypeError\<close>.
\<close>

definition call_out_layer ::
  "head \<Rightarrow> tensor \<Rightarrow> bool option \<Rightarrow> bool option \<Rightarrow> error + (prediction \<times> head)" where
  "call_out_layer layer x update_precision get_var =
     (case layer of
        GP gp \<Rightarrow>
          and_then (VanillaRFFLayer_forward gp x update_precision get_var)
            (\<lambda>(res, gp'). Inr (res, GP gp'))
      | Lin l \<Rightarrow>
          if update_precision \<noteq> None \<or> get_var \<noteq> None
          then Inl (TypeError ''forward() got an unexpected argument'')
          else and_then (Linear_forward l x) (\<lambda>y. Inr (Preds y, Lin l)))"

text \<open>
  A single tensor where the source uses the result as one (\<^verbatim>\<open>preds.squeeze(1)\<close>,
  \<^verbatim>\<open>.cpu()\<close>), a pair where it unpacks two names (\<^verbatim>\<open>preds, var = ...\<close>).
\<close>

fun as_tensor :: "prediction \<Rightarrow> error + tensor" where
  "as_tensor (Preds t) = Inr t"
| "as_tensor (PredsVar t v) = Inl (TypeError ''tuple object has no tensor attribute'')"

fun as_pair :: "prediction \<Rightarrow> error + (tensor \<times> tensor)" where
  "as_pair (PredsVar t v) = Inr (t, v)"
| "as_pair (Preds t) = Inl (ValueError ''cannot unpack a single tensor into preds, var'')"

section \<open>ByteNetPairedSeqs\<close>

record config =
  input_dim :: int
  hidden_dim :: int
  n_layers :: int
  kernel_size :: int
  dil_factor :: int
  rep_dim :: int
  dropout :: real
  slim :: bool
  llgp :: bool
  antigen_dim :: "int option"
  objective :: string
  num_predicted_categories :: int

record ByteNetPairedSeqs =
  self_objective :: string
  adjuster :: PositionFeedForward
  antigen_adjuster :: "PositionFeedForward option"
  antibody_layers :: "ByteNetBlock list"
  antigen_layers :: "ByteNetBlock list"
  down_adjuster :: PositionFeedForward
  final_lnorm :: LayerNorm
  out_layer :: head
  self_dropout :: real
  self_llgp :: bool
  training :: bool

text \<open>
  Lines 171 to 187 of the constructor: the objective fixes the width of the linear head and
  the likelihood of the GP head, or is rejected.
\<close>

definition objective_setup :: "string \<Rightarrow> int \<Rightarrow> error + (int \<times> string)" where
  "objective_setup obj ncat =
     (if obj = ''multiclass'' then
        (if ncat \<le> 2
         then Inl (RuntimeError ''If running in multiclass mode, num_predicted_categories must always be > 2.'')
         else Inr (ncat, ''multiclass''))
      else if obj = ''binary_classifier'' then Inr (1, ''binary_logistic'')
      else if obj = ''regression'' then Inr (1, ''Gaussian'')
      else Inl (RuntimeError ''Unrecognized objective supplied.''))"

text \<open>
  The list comprehension
  \<^verbatim>\<open>[ByteNetBlock(hidden_dim, d_h, hidden_dim, kernel_size, dilation=d, ...) for d in dilations]\<close>,
  with \<open>groups\<close> left at its default 1.
\<close>

fun ByteNetBlock_list ::
  "int \<Rightarrow> int \<Rightarrow> int \<Rightarrow> int \<Rightarrow> bool \<Rightarrow> int list \<Rightarrow> nat \<Rightarrow> ByteNetBlock list \<times> nat" where
  "ByteNetBlock_list d_i d_hid d_o k use_sn [] next = ([], next)"
| "ByteNetBlock_list d_i d_hid d_o k use_sn (d # ds) next =
     (let (blk, n1) = ByteNetBlock_init d_i d_hid d_o k d 1 use_sn next;
          (blks, n2) = ByteNetBlock_list d_i d_hid d_o k use_sn ds n1
      in (blk # blks, n2))"

text \<open>
  \<^verbatim>\<open>ByteNetPairedSeqs.__init__\<close>, in the order of its statements: the objective
  validation, the dilation schedule, the layers, and last (lines 225 to 234) the output head;
  with \<open>llgp\<close> the head is \<^verbatim>\<open>VanillaRFFLayer(in_features = rep_dim, RFFs = 1024,
  out_targets = 1, ..., likelihood = likelihood, random_seed = 123)\<close>, whose exception is the
  constructor's, and without it \<^verbatim>\<open>torch.nn.Linear(rep_dim, nclasses)\<close>.
\<close>

definition init :: "config \<Rightarrow> error + ByteNetPairedSeqs" where
  "init cfg =
     (let use_spectral_norm = llgp cfg in
      and_then (objective_setup (objective cfg) (num_predicted_categories cfg))
        (\<lambda>(nclasses, lik).
      and_then (dilations (n_layers cfg) (dil_factor cfg))
        (\<lambda>dils.
          let d_hid = (if slim cfg then hidden_dim cfg div 2 else hidden_dim cfg);
              (adj, n1) =
                 PositionFeedForward_init (input_dim cfg) (hidden_dim cfg) use_spectral_norm 0;
              (ag_adj, n2) =
                 (case antigen_dim cfg of
                    None \<Rightarrow> (None, n1)
                  | Some a \<Rightarrow>
                      (let (ff, n) =
                             PositionFeedForward_init a (hidden_dim cfg) use_spectral_norm n1
                       in (Some ff, n)));
              (ab, n3) =
                 ByteNetBlock_list (hidden_dim cfg) d_hid (hidden_dim cfg) (kernel_size cfg)
                   use_spectral_norm dils n2;
              (ag, n4) =
                 ByteNetBlock_list (hidden_dim cfg) d_hid (hidden_dim cfg) (kernel_size cfg)
                   use_spectral_norm dils n3;
              (down, n5) =
                 PositionFeedForward_init (hidden_dim cfg) (rep_dim cfg) use_spectral_norm n4;
              (fl, n6) = LayerNorm_init (rep_dim cfg) n5
          in and_then
               (if llgp cfg
                then and_then
                       (VanillaRFFLayer_init (rep_dim cfg) 1024 1 (999 / 1000) (1 / 1000)
                          lik 123)
                       (\<lambda>gp. Inr (GP gp))
                else (let (l, n7) = Linear_init (rep_dim cfg) nclasses n6
                      in Inr (if use_spectral_norm then Lin (SpectralNorm_linear l) else Lin l)))
               (\<lambda>ol.
                  Inr \<lparr>self_objective = objective cfg, adjuster = adj,
                       antigen_adjuster = ag_adj, antibody_layers = ab, antigen_layers = ag,
                       down_adjuster = down, final_lnorm = fl, out_layer = ol,
                       self_dropout = dropout cfg, self_llgp = llgp cfg, training = True\<rparr>))))"

text \<open>Lines 260 to 268 of \<^verbatim>\<open>forward\<close>: the encoder tower of the antibody sequence.\<close>

fun antibody_loop :: "real \<Rightarrow> bool \<Rightarrow> ByteNetBlock list \<Rightarrow> tensor \<Rightarrow> error + tensor" where
  "antibody_loop p tr [] x = Inr x"
| "antibody_loop p tr (layer # layers) x =
     and_then (ByteNetBlock_forward layer x) (\<lambda>y.
       if 0 < p \<and> tr
       then and_then (F_dropout y p) (antibody_loop p tr layers)
       else antibody_loop p tr layers y)"

definition encoder_tower :: "ByteNetPairedSeqs \<Rightarrow> tensor \<Rightarrow> error + tensor" where
  "encoder_tower m x_antibody =
     and_then (PositionFeedForward_forward (adjuster m) x_antibody) (\<lambda>x1.
     and_then (antibody_loop (self_dropout m) (training m) (antibody_layers m) x1) (\<lambda>x2.
     and_then (PositionFeedForward_forward (down_adjuster m) x2) (\<lambda>x3.
     and_then (mean_dim1 x3) (LayerNorm_forward (final_lnorm m)))))"

text \<open>
  The three objectives share
  \<^verbatim>\<open>preds = self.out_layer(x, update_precision) if self.llgp else self.out_layer(x)\<close>.
\<close>

definition point_prediction ::
  "ByteNetPairedSeqs \<Rightarrow> tensor \<Rightarrow> bool \<Rightarrow> error + (tensor \<times> head)" where
  "point_prediction m rep update_precision =
     and_then
       (if self_llgp m then call_out_layer (out_layer m) rep (Some update_precision) None
        else call_out_layer (out_layer m) rep None None)
       (\<lambda>(res, ol). and_then (as_tensor res) (\<lambda>preds. Inr (preds, ol)))"

text \<open>
  \<^verbatim>\<open>forward\<close> returns the prediction (with the variance, where the source returns a pair)
  and the model after the call, whose head may have updated its calibration state. In the
  regression branch the nested tests \<^verbatim>\<open>if self.llgp: if get_var:\<close> are the one test
  \<open>self_llgp m \<and> get_var\<close>; every other path assigns \<open>preds\<close> as
  \<open>point_prediction\<close> does.
\<close>

definition forward ::
  "ByteNetPairedSeqs \<Rightarrow> tensor \<Rightarrow> bool \<Rightarrow> bool \<Rightarrow> error + (prediction \<times> ByteNetPairedSeqs)" where
  "forward m x_antibody update_precision get_var =
     and_then (encoder_tower m x_antibody) (\<lambda>rep.
       if self_objective m = ''regression'' then
         (if self_llgp m \<and> get_var then
            and_then (call_out_layer (out_layer m) rep None (Some get_var)) (\<lambda>(res, ol).
            and_then (as_pair res) (\<lambda>(preds, var).
            and_then (squeeze1 preds) (\<lambda>p.
            Inr (PredsVar p var, m\<lparr>out_layer := ol\<rparr>))))
          else
            and_then (point_prediction m rep update_precision) (\<lambda>(preds, ol).
            and_then (squeeze1 preds) (\<lambda>p.
            Inr (Preds p, m\<lparr>out_layer := ol\<rparr>))))
       else if self_objective m = ''binary_classifier'' then
         and_then (point_prediction m rep update_precision) (\<lambda>(preds, ol).
         and_then (squeeze1 preds) (\<lambda>p.
         Inr (Preds (F_sigmoid p), m\<lparr>out_layer := ol\<rparr>)))
       else if self_objective m = ''multiclass'' then
         and_then (point_prediction m rep update_precision) (\<lambda>(preds, ol).
         Inr (Preds (F_softmax preds), m\<lparr>out_layer := ol\<rparr>))
       else Inl (RuntimeError ''Model was initialized with an invalid task / objective.''))"

text \<open>
  \<^verbatim>\<open>predict\<close>: \<^verbatim>\<open>self.eval()\<close> clears the training flag and leaves it cleared; the
  conversions between numpy arrays and tensors and the device transfer keep shape and
  value.
\<close>

definition predict ::
  "ByteNetPairedSeqs \<Rightarrow> tensor \<Rightarrow> bool \<Rightarrow> error + (prediction \<times> ByteNetPairedSeqs)" where
  "predict m x get_var =
     (let m1 = m\<lparr>training := False\<rparr>
      in if self_llgp m1 \<and> get_var \<and> self_objective m1 = ''regression''
         then and_then (forward m1 x False get_var) (\<lambda>(res, m2).
              and_then (as_pair res) (\<lambda>(preds, var). Inr (PredsVar preds var, m2)))
         else and_then (forward m1 x False False) (\<lambda>(res, m2).
              and_then (as_tensor res) (\<lambda>preds. Inr (Preds preds, m2))))"

section \<open>The stages of a residual block, as the specification orders them\<close>

text \<open>
  The specification's order of the stages inside a block: normalize, activate, project to
  the hidden width, normalize, activate, dilated convolution at the hidden width, normalize,
  activate, project to the output width. \<open>residual_stages\<close> composes the layers in that
  order; it is compared below with \<open>ByteNetBlock_forward\<close>, which runs the two
  \<^verbatim>\<open>Sequential\<close> containers that the constructor fills.
\<close>

definition residual_stages ::
  "LayerNorm \<Rightarrow> PositionFeedForward \<Rightarrow> LayerNorm \<Rightarrow> Conv1d \<Rightarrow> LayerNorm \<Rightarrow>
     PositionFeedForward \<Rightarrow> tensor \<Rightarrow> error + tensor" where
  "residual_stages norm1 proj1 norm2 cv norm3 proj2 x =
     and_then (LayerNorm_forward norm1 x) (\<lambda>a.
     and_then (PositionFeedForward_forward proj1 (gelu a)) (\<lambda>b.
     and_then (LayerNorm_forward norm2 b) (\<lambda>c.
     and_then (ConvLayer_forward cv (gelu c)) (\<lambda>d.
     and_then (LayerNorm_forward norm3 d) (\<lambda>e.
     PositionFeedForward_forward proj2 (gelu e))))))"

section \<open>Well-constructed configurations and returned shapes\<close>

text \<open>
  A configuration is well constructed when its sizes are positive, its dropout rate is a
  probability, and its kernel size is odd, so that the padding
  \<open>dilation * (kernel_size - 1) // 2\<close> restores the full length for every dilation.
\<close>

definition well_constructed :: "config \<Rightarrow> bool" where
  "well_constructed cfg \<longleftrightarrow>
     0 < input_dim cfg \<and> 0 < hidden_dim cfg \<and> (slim cfg \<longrightarrow> 2 \<le> hidden_dim cfg) \<and>
     0 < rep_dim cfg \<and> 0 < kernel_size cfg \<and> odd (kernel_size cfg) \<and>
     0 \<le> dropout cfg \<and> dropout cfg \<le> 1"

text \<open>The shapes of the values that \<^verbatim>\<open>forward\<close> or \<^verbatim>\<open>predict\<close> returned.\<close>

fun shapes_of :: "prediction \<Rightarrow> int list list" where
  "shapes_of (Preds t) = [shape t]"
| "shapes_of (PredsVar t v) = [shape t, shape v]"

definition returned_shapes :: "error + (prediction \<times> ByteNetPairedSeqs) \<Rightarrow> error + int list list" where
  "returned_shapes r = (case r of Inl e \<Rightarrow> Inl e | Inr (res, m) \<Rightarrow> Inr (shapes_of res))"

section \<open>What a call returns\<close>

text \<open>
  Whether a returned value carries a variance; the returned value together with the head's
  state after the call; and two models that agree on every attribute except the antigen
  adjuster and the antigen layers.
\<close>

fun has_variance :: "prediction \<Rightarrow> bool" where
  "has_variance (Preds t) = False"
| "has_variance (PredsVar t v) = True"

definition outcome :: "error + (prediction \<times> ByteNetPairedSeqs) \<Rightarrow> error + (prediction \<times> head)" where
  "outcome r = (case r of Inl e \<Rightarrow> Inl e | Inr (res, m) \<Rightarrow> Inr (res, out_layer m))"

definition same_primary :: "ByteNetPairedSeqs \<Rightarrow> ByteNetPairedSeqs \<Rightarrow> bool" where
  "same_primary m m' \<longleftrightarrow>
     self_objective m = self_objective m' \<and> adjuster m = adjuster m' \<and>
     antibody_layers m = antibody_layers m' \<and> down_adjuster m = down_adjuster m' \<and>
     final_lnorm m = final_lnorm m' \<and> out_layer m = out_layer m' \<and>
     self_dropout m = self_dropout m' \<and> self_llgp m = self_llgp m' \<and>
     training m = training m'"

section \<open>An example configuration\<close>

text \<open>A small regression model with a linear head, used to instantiate the theorems.\<close>

definition example_config :: config where
  "example_config =
     \<lparr>input_dim = 21, hidden_dim = 8, n_layers = 2, kernel_size = 3, dil_factor = 2,
      rep_dim = 4, dropout = 0, slim = False, llgp = False, antigen_dim = None,
      objective = ''regression'', num_predicted_categories = 1\<rparr>"

definition example_input :: tensor where
  "example_input = \<lparr>shape = [2, 5, 21], val = Leaf 0\<rparr>"

section \<open>Facts about float64 rounding\<close>

lemma round_half_even_error: "\<bar>of_int (round_half_even q) - q\<bar> \<le> 1 / 2"
proof -
  have "of_int \<lfloor>q\<rfloor> \<le> q" "q < of_int \<lfloor>q\<rfloor> + 1" by linarith+
  then show ?thesis
    by (auto simp: round_half_even_def Let_def)
qed

lemma round_half_even_near:
  assumes "\<bar>q - of_int m\<bar> < 1 / 2"
  shows "round_half_even q = m"
proof -
  have "\<bar>of_int (round_half_even q) - q\<bar> \<le> 1 / 2" by (rule round_half_even_error)
  with assms have "\<bar>(of_int (round_half_even q) :: real) - of_int m\<bar> < 1" by linarith
  then have "\<bar>round_half_even q - m\<bar> < 1"
    by (metis of_int_abs of_int_diff of_int_less_1_iff)
  then show ?thesis by linarith
qed

lemma round_half_even_of_int [simp]: "round_half_even (of_int n) = n"
  by (rule round_half_even_near) simp

lemma ln2_bounds: "7 / 12 \<le> ln (2::real)" "ln (2::real) \<le> 5 / 6"
proof -
  have a: "ln (3 / 2 :: real) \<le> 1 / 2" using ln_add_one_self_le_self [of "1 / 2 :: real"] by simp
  have b: "ln (4 / 3 :: real) \<le> 1 / 3" using ln_add_one_self_le_self [of "1 / 3 :: real"] by simp
  have c: "ln (2 / 3 :: real) \<le> - (1 / 3)"
    using ln_one_minus_pos_upper_bound [of "1 / 3 :: real"] by simp
  have d: "ln (3 / 4 :: real) \<le> - (1 / 4)"
    using ln_one_minus_pos_upper_bound [of "1 / 4 :: real"] by simp
  have e: "ln (2::real) = ln (3 / 2) + ln (4 / 3)"
    using ln_mult [of "3 / 2 :: real" "4 / 3"] by simp
  have f: "ln (2::real) = - ln (2 / 3) - ln (3 / 4)"
    using ln_mult [of "2 / 3 :: real" "3 / 4"] ln_div [of 1 "2 :: real"] by simp
  from a b e show "ln (2::real) \<le> 5 / 6" by linarith
  from c d f show "7 / 12 \<le> ln (2::real)" by linarith
qed

lemma log2_one_plus:
  assumes "0 < y" and "y \<le> 1 / 7"
  shows "y < log 2 (1 + y)"
proof -
  from assms have "y - y\<^sup>2 \<le> ln (1 + y)" by (intro ln_one_plus_pos_lower_bound) simp_all
  moreover from assms have "y * y \<le> y * (1 / 7)" by (intro mult_left_mono) simp_all
  ultimately have "y * (6 / 7) \<le> ln (1 + y)" by (simp add: power2_eq_square algebra_simps)
  moreover have "y * ln 2 \<le> y * (5 / 6)"
    using assms ln2_bounds(2) by (intro mult_left_mono) simp_all
  ultimately have "y * ln 2 < ln (1 + y)" using assms by linarith
  then show ?thesis by (simp add: log_def field_simps)
qed

lemma log2_one_minus:
  assumes "0 < y" and "y < 1"
  shows "log 2 (1 - y) < - y"
proof -
  from assms have "ln (1 - y) \<le> - y" by (intro ln_one_minus_pos_upper_bound) simp_all
  moreover have "y * ln 2 < y * 1" using assms ln2_bounds(2) by (intro mult_strict_left_mono) simp_all
  ultimately have "ln (1 - y) < - y * ln 2" by simp
  then show ?thesis by (simp add: log_def field_simps)
qed

lemma round64_error:
  assumes "0 < r" and "r < 64"
  shows "\<bar>round64 r - r\<bar> \<le> 1 / 2 ^ 48"
proof -
  define u :: real where "u = 2 powr (of_int \<lfloor>log 2 \<bar>r\<bar>\<rfloor> - 52)"
  have u0: "0 < u" by (simp add: u_def)
  from assms have "log 2 r < log 2 64" by simp
  also have "log 2 (64::real) = 6" using log_pow_cancel [of "2::real" 6] by simp
  finally have "\<lfloor>log 2 r\<rfloor> \<le> 5" by linarith
  then have "of_int \<lfloor>log 2 \<bar>r\<bar>\<rfloor> - 52 \<le> (- 47 :: real)" using assms by simp
  then have "u \<le> 2 powr (- 47)" unfolding u_def by simp
  also have "2 powr (- 47 :: real) = 1 / 2 ^ 47"
    using powr_realpow [of "2::real" 47] by (simp add: powr_minus_divide)
  finally have u47: "u \<le> 1 / 2 ^ 47" .
  have r64: "round64 r = of_int (round_half_even (r / u)) * u"
    using assms by (simp add: round64_def u_def Let_def)
  have "\<bar>of_int (round_half_even (r / u)) - r / u\<bar> * u \<le> (1 / 2) * u"
    using round_half_even_error [of "r / u"] u0 by (intro mult_right_mono) simp_all
  moreover have "(of_int (round_half_even (r / u)) - r / u) * u = round64 r - r"
    using u0 by (simp add: r64 field_simps)
  then have "\<bar>of_int (round_half_even (r / u)) - r / u\<bar> * u = \<bar>round64 r - r\<bar>"
    using u0 by (metis abs_mult abs_of_pos)
  ultimately have "\<bar>round64 r - r\<bar> \<le> u / 2" by simp
  with u47 show ?thesis by simp
qed

lemma round64_of_int:
  assumes "0 \<le> n" and "n < 2 ^ 53"
  shows "round64 (of_int n) = of_int n"
proof (cases "n = 0")
  case True
  then show ?thesis by (simp add: round64_def)
next
  case False
  with assms have pos: "0 < n" by simp
  define e where "e = \<lfloor>log 2 (real_of_int n)\<rfloor>"
  from pos have "1 \<le> real_of_int n" by simp
  then have "0 \<le> log 2 (real_of_int n)" by simp
  then have e0: "0 \<le> e" by (simp add: e_def)
  from assms have "real_of_int n < 2 ^ 53" by (metis of_int_less_iff of_int_numeral of_int_power)
  with pos have "log 2 (real_of_int n) < log 2 (2 ^ 53)" by simp
  also have "log 2 ((2::real) ^ 53) = 53" using log_pow_cancel [of "2::real" 53] by simp
  finally have e52: "e \<le> 52" by (simp add: e_def)
  define k where "k = nat (52 - e)"
  have "of_int e - (52::real) = - real k" using e52 by (simp add: k_def)
  then have u: "2 powr (of_int e - 52) = 1 / (2::real) ^ k"
    using powr_realpow [of "2::real" k] by (simp add: powr_minus_divide)
  have q: "real_of_int n / (1 / 2 ^ k) = of_int (n * 2 ^ k)" by simp
  from pos have "round64 (of_int n) =
      of_int (round_half_even (real_of_int n / (1 / 2 ^ k))) * (1 / 2 ^ k)"
    by (simp add: round64_def Let_def e_def [symmetric] u)
  also have "\<dots> = of_int (n * 2 ^ k) * (1 / 2 ^ k)"
    by (simp only: q round_half_even_of_int)
  also have "\<dots> = of_int n" by simp
  finally show ?thesis .
qed

lemma round64_near_integer:
  assumes "32 \<le> r" and "r < 64" and "\<bar>r - of_int m\<bar> < 1 / 2 ^ 48"
  shows "round64 r = of_int m"
proof -
  from assms have "2 powr (of_int 5) \<le> r \<and> r < 2 powr (of_int 5 + 1)"
    using powr_realpow [of "2::real" 5] powr_realpow [of "2::real" 6] by simp
  with assms have e: "\<lfloor>log 2 r\<rfloor> = 5"
    using floor_log_eq_powr_iff [of r 2 5] by simp
  define c :: real where "c = 2 ^ 47"
  have c0: "0 < c" by (simp add: c_def)
  have "2 powr (- 47 :: real) = 1 / c"
    using powr_realpow [of "2::real" 47] by (simp add: powr_minus_divide c_def)
  with e assms have r64: "round64 r = of_int (round_half_even (r / (1 / c))) * (1 / c)"
    by (simp add: round64_def Let_def)
  have "\<bar>r - of_int m\<bar> * c < (1 / 2 ^ 48) * c"
    using assms(3) c0 by (intro mult_strict_right_mono)
  moreover have "\<bar>r - of_int m\<bar> * c = \<bar>(r - of_int m) * c\<bar>"
    using c0 by (metis abs_mult abs_of_pos)
  moreover have "(r - of_int m) * c = r / (1 / c) - of_int (m * 2 ^ 47)"
    by (simp add: c_def algebra_simps)
  moreover have "(1 / 2 ^ 48) * c = 1 / 2" by (simp add: c_def)
  ultimately have "\<bar>r / (1 / c) - of_int (m * 2 ^ 47)\<bar> < 1 / 2" by simp
  then have "round_half_even (r / (1 / c)) = m * 2 ^ 47" by (rule round_half_even_near)
  then have "round64 r = of_int (m * 2 ^ 47) * (1 / c)" by (simp only: r64)
  also have "\<dots> = of_int m" by (simp add: c_def)
  finally show ?thesis .
qed

lemma round_half_even_ge:
  assumes "of_int m \<le> q"
  shows "m \<le> round_half_even q"
proof -
  have "\<bar>of_int (round_half_even q) - q\<bar> \<le> 1 / 2" by (rule round_half_even_error)
  with assms have "real_of_int m - 1 < of_int (round_half_even q)" by linarith
  then have "m - 1 < round_half_even q" by linarith
  then show ?thesis by simp
qed

lemma round64_nonneg:
  assumes "0 \<le> r"
  shows "0 \<le> round64 r"
proof (cases "r = 0")
  case True
  then show ?thesis by (simp add: round64_def)
next
  case False
  define u :: real where "u = 2 powr (of_int \<lfloor>log 2 \<bar>r\<bar>\<rfloor> - 52)"
  have u0: "0 < u" by (simp add: u_def)
  with assms have "of_int 0 \<le> r / u" by simp
  then have "0 \<le> round_half_even (r / u)" by (rule round_half_even_ge)
  with u0 False show ?thesis by (simp add: round64_def Let_def u_def [symmetric])
qed

lemma round64_ge_1:
  assumes "1 \<le> r"
  shows "1 \<le> round64 r"
proof -
  define e where "e = \<lfloor>log 2 r\<rfloor>"
  define u :: real where "u = 2 powr (of_int e - 52)"
  have u0: "0 < u" by (simp add: u_def)
  from assms have "0 \<le> log 2 r" by simp
  then have e0: "0 \<le> e" by (simp add: e_def)
  from assms have "2 powr (of_int e) \<le> r"
    using floor_log_eq_powr_iff [of r 2 e] by (simp add: e_def)
  then have "2 powr (of_int e) / u \<le> r / u" using u0 by (simp add: divide_right_mono)
  moreover have "2 powr (of_int e) / u = 2 powr 52"
    by (simp add: u_def powr_diff [symmetric])
  moreover have "2 powr (52::real) = of_int (2 ^ 52)"
    using powr_realpow [of "2::real" 52] by simp
  ultimately have "of_int (2 ^ 52) \<le> r / u" by simp
  then have "2 ^ 52 \<le> round_half_even (r / u)" by (rule round_half_even_ge)
  then have "of_int (2 ^ 52) \<le> real_of_int (round_half_even (r / u))"
    by (simp only: of_int_le_iff)
  then have "of_int (2 ^ 52) * u \<le> of_int (round_half_even (r / u)) * u"
    using u0 by (intro mult_right_mono) simp_all
  moreover have "of_int (2 ^ 52) * u = 2 powr (of_int e)"
    using \<open>2 powr (52::real) = of_int (2 ^ 52)\<close> [symmetric]
    by (simp only: u_def powr_add [symmetric]) simp
  moreover have "1 \<le> 2 powr (real_of_int e)" using e0 by (simp add: ge_one_powr_ge_zero)
  moreover from assms have "round64 r = of_int (round_half_even (r / u)) * u"
    by (simp add: round64_def Let_def u_def e_def)
  ultimately show ?thesis by linarith
qed

lemma log2_strictly_inside:
  fixes X :: real and p :: nat
  assumes lo: "2 ^ p + 1 \<le> X" and hi: "X \<le> 2 ^ (p + 1) * (1 - 1 / 2 ^ 48)" and p: "p \<le> 48"
  shows "real p + 1 / 2 ^ 48 < log 2 X" and "log 2 X < real p + 1 - 1 / 2 ^ 48"
proof -
  define y :: real where "y = 1 / 2 ^ 48"
  have y: "0 < y" "y \<le> 1 / 7" "y < 1" by (simp_all add: y_def)
  have P: "0 < (2::real) ^ p" by simp
  from lo have X: "0 < X" using P by linarith
  have "(2::real) ^ p \<le> 2 ^ 48" using p by (intro power_increasing) simp_all
  then have "y * 2 ^ p \<le> 1" by (simp add: y_def field_simps)
  with lo have "2 ^ p * (1 + y) \<le> X" by (simp add: algebra_simps)
  then have "log 2 (2 ^ p * (1 + y)) \<le> log 2 X"
    using P y by (intro log_mono) simp_all
  moreover have "log 2 (2 ^ p * (1 + y)) = real p + log 2 (1 + y)"
    using y by (simp add: log_mult_pos)
  moreover have "y < log 2 (1 + y)" using y by (intro log2_one_plus)
  ultimately show "real p + 1 / 2 ^ 48 < log 2 X" by (simp add: y_def)
  from hi have "X \<le> 2 ^ (p + 1) * (1 - y)" by (simp only: y_def)
  with X have "log 2 X \<le> log 2 (2 ^ (p + 1) * (1 - y))"
    by (intro log_mono) simp_all
  moreover have "log 2 (2 ^ (p + 1) * (1 - y)) = real (p + 1) + log 2 (1 - y)"
  proof -
    have l1: "log 2 ((2::real) ^ (p + 1)) = real (p + 1)" by (rule log_pow_cancel) simp_all
    have l2: "log 2 (2 ^ (p + 1) * (1 - y)) = log 2 (2 ^ (p + 1)) + log 2 (1 - y)"
      using y by (intro log_mult_pos) simp_all
    show ?thesis by (simp only: l1 l2)
  qed
  moreover have "log 2 (1 - y) < - y" using y by (intro log2_one_minus)
  ultimately show "log 2 X < real p + 1 - 1 / 2 ^ 48" by (simp add: y_def)
qed

section \<open>Facts about the dilation schedule\<close>

lemma and_then_Inl [simp]: "and_then (Inl e) f = Inl e"
  by (simp add: and_then_def)

lemma and_then_Inr [simp]: "and_then (Inr v) f = f v"
  by (simp add: and_then_def)

lemma py_int_in_unit:
  assumes "of_int p < v" and "v < of_int p + 1" and "0 \<le> p"
  shows "py_int (Finite v) = Inr p"
proof -
  from assms have "\<lfloor>v\<rfloor> = p" by linarith
  moreover from assms have "0 \<le> v" by linarith
  ultimately show ?thesis by simp
qed

lemma np_log2_pos:
  assumes "0 < x" and "x < 2 ^ 53"
  shows "np_log2 x = Inr (Finite (round64 (log 2 (real_of_int x))))"
proof -
  from assms have "round64 (real_of_int x) = real_of_int x"
    by (intro round64_of_int) simp_all
  then show ?thesis using assms by (simp add: np_log2_def)
qed

lemma dil_log2_ge_1:
  assumes "dil_log2 x = Inr p"
  shows "1 \<le> p"
proof -
  from assms have x: "0 < x"
    by (auto simp: dil_log2_def np_log2_def split: if_splits)
  then have "1 \<le> real_of_int x" by simp
  then have "1 \<le> round64 (real_of_int x)" by (rule round64_ge_1)
  then have "0 \<le> log 2 (round64 (real_of_int x))" by simp
  then have "0 \<le> round64 (log 2 (round64 (real_of_int x)))" by (rule round64_nonneg)
  with assms x show ?thesis
    by (auto simp: dil_log2_def np_log2_def split: if_splits)
qed

lemma dil_log2_nonpos: "x \<le> 0 \<Longrightarrow> \<exists>e. dil_log2 x = Inl e"
  by (simp add: dil_log2_def np_log2_def)

lemma dil_log2_out_of_range:
  "2 ^ 64 \<le> x \<Longrightarrow>
     dil_log2 x = Inl (TypeError ''loop of ufunc does not support argument 0 of type int'')"
  by (simp add: dil_log2_def np_log2_def)

lemma dil_log2_error:
  "dil_log2 fac = Inl e \<Longrightarrow> \<exists>msg. e = ValueError msg \<or> e = OverflowError msg \<or> e = TypeError msg"
  by (auto simp: dil_log2_def np_log2_def split: if_splits)

lemma dil_log2_exact:
  assumes "0 < x" and "x < 2 ^ 49 - 1"
  shows "dil_log2 x = Inr (bitlen x)"
proof -
  define p where "p = nat (bitlen x - 1)"
  from assms(1) have b: "2 ^ p \<le> x" "x < 2 ^ nat (bitlen x)"
    using bitlen_bounds [of x] by (simp_all add: p_def)
  from assms(1) have b1: "1 \<le> bitlen x"
    using bitlen_bounds [of x] bitlen_nonneg [of x] by (cases "bitlen x = 0") auto
  then have bp: "bitlen x = int p + 1" and np: "nat (bitlen x) = p + 1"
    by (simp_all add: p_def)
  have p48: "p \<le> 48"
  proof (rule ccontr)
    assume "\<not> p \<le> 48"
    then have "49 \<le> p" by simp
    then have "(2::int) ^ 49 \<le> 2 ^ p" by (intro power_increasing) simp_all
    with b(1) assms(2) show False by simp
  qed
  from assms have x53: "x < 2 ^ 53" by simp
  have np_eq: "np_log2 x = Inr (Finite (round64 (log 2 (real_of_int x))))"
    using assms(1) x53 by (rule np_log2_pos)
  show ?thesis
  proof (cases "x = 2 ^ p")
    case True
    then have "real_of_int x = 2 ^ p" by simp
    then have "log 2 (real_of_int x) = real p" by simp
    moreover have "round64 (of_int (int p)) = of_int (int p)"
      using p48 by (intro round64_of_int) simp_all
    ultimately have "round64 (log 2 (real_of_int x)) = real p" by simp
    then show ?thesis by (simp add: dil_log2_def np_eq bp)
  next
    case False
    with b(1) have "2 ^ p + 1 \<le> x" by simp
    then have "real_of_int (2 ^ p + 1) \<le> real_of_int x" by (simp only: of_int_le_iff)
    then have lo: "2 ^ p + 1 \<le> real_of_int x" by simp
    have hi: "real_of_int x \<le> 2 ^ (p + 1) * (1 - 1 / 2 ^ 48)"
    proof (cases "p = 48")
      case True
      from assms(2) have "x \<le> 2 ^ 49 - 2" by simp
      then have "real_of_int x \<le> real_of_int (2 ^ 49 - 2)" by (simp only: of_int_le_iff)
      then have "real_of_int x \<le> 2 ^ 49 - 2" by simp
      with True show ?thesis by simp
    next
      case False
      with p48 have "p + 1 \<le> 48" by simp
      then have "(2::real) ^ (p + 1) \<le> 2 ^ 48" by (intro power_increasing) simp_all
      then have "(2::real) ^ (p + 1) * (1 / 2 ^ 48) \<le> 1" by (simp add: field_simps)
      moreover from b(2) have "x \<le> 2 ^ (p + 1) - 1" by (simp add: np)
      then have "real_of_int x \<le> real_of_int (2 ^ (p + 1) - 1)"
        by (simp only: of_int_le_iff)
      then have "real_of_int x \<le> 2 ^ (p + 1) - 1" by simp
      ultimately show ?thesis by (simp add: algebra_simps)
    qed
    note inside = log2_strictly_inside [OF lo hi p48]
    from inside have r: "0 < log 2 (real_of_int x)" "log 2 (real_of_int x) < 64"
      using p48 by simp_all
    have e: "\<bar>round64 (log 2 (real_of_int x)) - log 2 (real_of_int x)\<bar> \<le> 1 / 2 ^ 48"
      using r by (rule round64_error)
    have "real p < round64 (log 2 (real_of_int x))"
      and "round64 (log 2 (real_of_int x)) < real p + 1"
      using e inside by linarith+
    then have "of_int (int p) < round64 (log 2 (real_of_int x))"
      and "round64 (log 2 (real_of_int x)) < of_int (int p) + 1"
      by simp_all
    then have "py_int (Finite (round64 (log 2 (real_of_int x)))) = Inr (int p)"
      by (rule py_int_in_unit) simp
    then show ?thesis by (simp add: dil_log2_def np_eq bp)
  qed
qed

lemma dil_log2_rounds_up: "dil_log2 (2 ^ 49 - 1) = Inr 50"
proof -
  define X :: real where "X = 2 ^ 49 - 1"
  have np_eq: "np_log2 (2 ^ 49 - 1) = Inr (Finite (round64 (log 2 (real_of_int (2 ^ 49 - 1)))))"
    by (rule np_log2_pos) simp_all
  have conv: "real_of_int (2 ^ 49 - 1) = X" by (simp add: X_def)
  have X0: "0 < X" by (simp add: X_def)
  define c :: real where "c = 2 ^ 49"
  have c0: "0 < c" by (simp add: c_def)
  have "log 2 c = real 49" unfolding c_def by (rule log_pow_cancel) simp_all
  moreover have "log 2 (c / X) = log 2 c - log 2 X"
    using c0 X0 by (intro log_divide_pos) simp_all
  moreover have "c / X = 1 + 1 / X" using X0 by (simp add: X_def c_def field_simps)
  ultimately have d: "49 - log 2 X = log 2 (1 + 1 / X)" by simp
  define t where "t = 1 / X"
  define h :: real where "h = 1 / 2 ^ 48"
  have t0: "0 < t" using X0 by (simp add: t_def)
  have l0: "0 < ln (2::real)" by simp
  have a1: "ln (1 + t) \<le> t" using t0 by (intro ln_add_one_self_le_self) simp
  have "t * (12 / 7) < h" by (simp add: t_def X_def h_def)
  then have a2: "(t * (12 / 7)) * ln 2 < h * ln 2" using l0 by (rule mult_strict_right_mono)
  have "t * 1 \<le> t * ((12 / 7) * ln 2)"
    using ln2_bounds(1) t0 by (intro mult_left_mono) simp_all
  then have a3: "t \<le> (t * (12 / 7)) * ln 2" by (simp only: mult_1_right mult.assoc)
  from a1 a2 a3 have "ln (1 + t) < h * ln 2" by linarith
  then have "ln (1 + t) / ln 2 < h" using l0 by (simp add: pos_divide_less_eq)
  then have up: "log 2 (1 + 1 / X) < 1 / 2 ^ 48" by (simp only: log_def t_def h_def)
  have "1 < 1 + t" using t0 by simp
  then have "0 < log 2 (1 + t)" using t0 by simp
  then have "0 < log 2 (1 + 1 / X)" by (simp only: t_def)
  with up d have near: "\<bar>log 2 X - of_int 49\<bar> < 1 / 2 ^ 48" by simp
  have "(1::real) / 2 ^ 48 \<le> 1" by simp
  with near have "32 \<le> log 2 X" "log 2 X < 64" by linarith+
  then have "round64 (log 2 X) = of_int 49" using near by (rule round64_near_integer)
  then have "np_log2 (2 ^ 49 - 1) = Inr (Finite (of_int 49))" by (simp only: np_eq conv)
  then show ?thesis by (simp add: dil_log2_def)
qed

lemma map_result_total:
  "(\<And>x. x \<in> set xs \<Longrightarrow> f x = Inr (g x)) \<Longrightarrow> map_result f xs = Inr (map g xs)"
  by (induction xs) simp_all

lemma dilations_period:
  assumes "dil_log2 fac = Inr p"
  shows "dilations lay fac = Inr (map (\<lambda>n. 2 ^ (n mod nat p)) [0..<nat lay])"
proof -
  from assms have p: "1 \<le> p" by (rule dil_log2_ge_1)
  then have "dilation_at p n = Inr (2 ^ nat (n mod p))" for n
    by (simp add: dilation_at_def py_mod_def)
  then have "map_result (dilation_at p) (py_range lay) =
               Inr (map (\<lambda>n. 2 ^ nat (n mod p)) (py_range lay))"
    by (intro map_result_total) simp
  moreover have "nat (int n mod p) = n mod nat p" for n
    using p by (simp add: nat_mod_distrib)
  ultimately show ?thesis using assms by (simp add: dilations_def py_range_def comp_def)
qed

lemma dilations_out_of_range:
  "2 ^ 64 \<le> fac \<Longrightarrow>
     dilations lay fac =
       Inl (TypeError ''loop of ufunc does not support argument 0 of type int'')"
  by (simp add: dilations_def dil_log2_out_of_range)

lemma floor_log2_bitlen: "0 < x \<Longrightarrow> \<lfloor>log 2 (real_of_int x)\<rfloor> = bitlen x - 1"
  by (simp add: bitlen_alt_def)

lemma bitlen_ge_1: "0 < x \<Longrightarrow> 1 \<le> bitlen x"
  using bitlen_bounds [of x] bitlen_nonneg [of x] by (cases "bitlen x = 0") auto

lemma dilation_le:
  assumes "0 < fac"
  shows "2 ^ nat (n mod bitlen fac) \<le> fac"
proof -
  from assms have b: "1 \<le> bitlen fac" by (rule bitlen_ge_1)
  then have "n mod bitlen fac < bitlen fac" by simp
  then have "nat (n mod bitlen fac) \<le> nat (bitlen fac - 1)" by simp
  then have "(2::int) ^ nat (n mod bitlen fac) \<le> 2 ^ nat (bitlen fac - 1)"
    by (intro power_increasing) simp_all
  also from assms have "\<dots> \<le> fac" using bitlen_bounds [of fac] by simp
  finally show ?thesis .
qed

lemma dilations_50: "dilations 50 (2 ^ 49 - 1) = Inr (map ((^) 2) [0..<50])"
proof -
  have "dilations 50 (2 ^ 49 - 1) = Inr (map (\<lambda>n. 2 ^ (n mod nat 50)) [0..<nat 50])"
    using dil_log2_rounds_up by (rule dilations_period)
  moreover have "map (\<lambda>n. (2::int) ^ (n mod nat 50)) [0..<nat 50] = map ((^) 2) [0..<nat 50]"
    by (rule list.map_cong0) simp
  moreover have "nat 50 = 50" by simp
  ultimately show ?thesis by (simp only:)
qed

lemma floor_log2_below_2_49: "\<lfloor>log 2 (real_of_int (2 ^ 49 - 1))\<rfloor> = 48"
proof -
  have "\<lfloor>log 2 (real_of_int (2 ^ 49 - 1))\<rfloor> = bitlen (2 ^ 49 - 1) - 1"
    by (rule floor_log2_bitlen) simp
  also have "\<dots> = 48" by (simp add: compute_bitlen)
  finally show ?thesis .
qed

lemma last_dilation_schedule_spec_50: "last (dilation_schedule_spec 50 (2 ^ 49 - 1)) = 1"
proof -
  have "dilation_schedule_spec 50 (2 ^ 49 - 1) = map (\<lambda>n. 2 ^ (n mod 49)) [0..<Suc 49]"
    by (simp only: dilation_schedule_spec_def floor_log2_below_2_49) simp
  then show ?thesis by (simp only: upt_Suc) simp
qed

lemma last_powers_50: "last (map ((^) 2) [0..<50]) = (2::int) ^ 49"
proof -
  have "[0..<50] = [0..<Suc 49]" by simp
  then show ?thesis by (simp only: upt_Suc) simp
qed

text \<open>
  C2 (counterexample). At \<open>n_layers = 50\<close> and \<open>dil_factor = 2 ^ 49 - 1\<close> the float64
  logarithm is rounded up to \<open>49.0\<close>, so the constructor's period is 50 and its schedule is
  \<open>1, 2, 4, ..., 2 ^ 49\<close>. The claim's period \<open>floor (log2 dil_factor) + 1\<close> is 49, the
  schedule in the specification's words is another list, and the last dilation \<open>2 ^ 49\<close>
  is greater than \<open>dil_factor\<close>.
\<close>

theorem dilation_schedule_counterexample:
  "dilations 50 (2 ^ 49 - 1) = Inr (map ((^) 2) [0..<50]) \<and>
   dilations 50 (2 ^ 49 - 1) \<noteq> Inr (dilation_schedule_spec 50 (2 ^ 49 - 1)) \<and>
   \<lfloor>log 2 (real_of_int (2 ^ 49 - 1))\<rfloor> + 1 = 49 \<and>
   (2 ^ 49 - 1 :: int) < last (map ((^) 2) [0..<50])"
proof (intro conjI)
  show "dilations 50 (2 ^ 49 - 1) = Inr (map ((^) 2) [0..<50])" by (rule dilations_50)
  show "dilations 50 (2 ^ 49 - 1) \<noteq> Inr (dilation_schedule_spec 50 (2 ^ 49 - 1))"
  proof
    assume "dilations 50 (2 ^ 49 - 1) = Inr (dilation_schedule_spec 50 (2 ^ 49 - 1))"
    then have "map ((^) 2) [0..<50] = dilation_schedule_spec 50 (2 ^ 49 - 1)"
      by (simp only: dilations_50 sum.inject)
    then have "last (map ((^) 2) [0..<50]) = last (dilation_schedule_spec 50 (2 ^ 49 - 1))"
      by (rule arg_cong)
    then show False by (simp only: last_powers_50 last_dilation_schedule_spec_50) simp
  qed
  show "\<lfloor>log 2 (real_of_int (2 ^ 49 - 1))\<rfloor> + 1 = 49"
    by (simp only: floor_log2_below_2_49)
  show "(2 ^ 49 - 1 :: int) < last (map ((^) 2) [0..<50])"
    by (simp only: last_powers_50)
qed

text \<open>
  C2 (amended). For \<open>n_layers \<ge> 1\<close> and an integer \<open>1 \<le> dil_factor < 2 ^ 49 - 1\<close> the
  constructor's dilation schedule is the list of length \<open>n_layers\<close> whose \<open>n\<close>-th element
  is \<open>2 ^ (n mod period)\<close> with \<open>period = floor (log2 dil_factor) + 1\<close>; every element is
  a power of two and at most \<open>dil_factor\<close>. Below \<open>2 ^ 49 - 1\<close> the rounding of the float64
  logarithm never reaches the next integer (lemma \<open>dil_log2_exact\<close>).
\<close>

theorem dilation_schedule:
  assumes "1 \<le> lay" and "1 \<le> fac" and "fac < 2 ^ 49 - 1"
  shows "dilations lay fac =
           Inr (map (\<lambda>n. 2 ^ (n mod nat (\<lfloor>log 2 (real_of_int fac)\<rfloor> + 1))) [0..<nat lay])
         \<and> (\<forall>ds. dilations lay fac = Inr ds \<longrightarrow>
               length ds = nat lay \<and> (\<forall>d \<in> set ds. (\<exists>k. d = 2 ^ k) \<and> d \<le> fac))"
proof -
  from assms have pos: "0 < fac" by simp
  then have b: "1 \<le> bitlen fac" by (rule bitlen_ge_1)
  have per: "nat (\<lfloor>log 2 (real_of_int fac)\<rfloor> + 1) = nat (bitlen fac)"
    using pos by (simp add: floor_log2_bitlen)
  have el: "nat (int n mod bitlen fac) = n mod nat (bitlen fac)" for n
    using b by (simp add: nat_mod_distrib)
  from pos assms(3) have "dil_log2 fac = Inr (bitlen fac)" by (rule dil_log2_exact)
  then have eq: "dilations lay fac = Inr (map (\<lambda>n. 2 ^ (n mod nat (bitlen fac))) [0..<nat lay])"
    by (rule dilations_period)
  have "(\<exists>k. d = 2 ^ k) \<and> d \<le> fac"
    if "d \<in> set (map (\<lambda>n. (2::int) ^ (n mod nat (bitlen fac))) [0..<nat lay])" for d
  proof -
    from that obtain n where d: "d = 2 ^ (n mod nat (bitlen fac))" by auto
    then have "d = 2 ^ nat (int n mod bitlen fac)" by (simp add: el)
    with dilation_le [OF pos, of "int n"] d show ?thesis by auto
  qed
  with eq per show ?thesis by simp
qed

theorem dilation_schedule_witness:
  "(1::int) \<le> 5 \<and> (1::int) \<le> 4 \<and> (4::int) < 2 ^ 49 - 1 \<and> dilations 5 4 = Inr [1, 2, 4, 1, 2]"
proof -
  have "\<lfloor>log 2 (real_of_int 4)\<rfloor> = 2"
    by (simp only: floor_log2_bitlen) (simp add: compute_bitlen)
  then have "nat (\<lfloor>log 2 (real_of_int 4)\<rfloor> + 1) = 3" by simp
  with dilation_schedule [of 5 4] show ?thesis
    by (simp add: upt_rec)
qed

section \<open>Errors raised by the constructor\<close>

lemma dilations_error:
  assumes "dilations lay fac = Inl e"
  shows "dil_log2 fac = Inl e"
proof (cases "dil_log2 fac")
  case (Inl e')
  with assms show ?thesis by (simp add: dilations_def)
next
  case (Inr p)
  then have "dilations lay fac = Inr (map (\<lambda>n. 2 ^ (n mod nat p)) [0..<nat lay])"
    by (rule dilations_period)
  with assms show ?thesis by simp
qed

lemma init_after_setup:
  assumes "objective_setup (objective cfg) (num_predicted_categories cfg) = Inr v"
    and "dilations (n_layers cfg) (dil_factor cfg) = Inr ds"
  shows "(\<exists>m. init cfg = Inr m) \<or> (\<exists>msg. init cfg = Inl (ValueError msg))"
  using assms
  by (cases v) (simp add: init_def Let_def VanillaRFFLayer_init_def split: prod.splits)

lemma init_setup_error:
  "objective_setup (objective cfg) (num_predicted_categories cfg) = Inl e \<Longrightarrow> init cfg = Inl e"
  by (simp add: init_def)

lemma init_dilations_error:
  assumes "objective_setup (objective cfg) (num_predicted_categories cfg) = Inr v"
    and "dilations (n_layers cfg) (dil_factor cfg) = Inl e"
  shows "init cfg = Inl e"
  using assms by (cases v) (simp add: init_def)

text \<open>
  C3. The constructor raises the configuration error of its objective validation (a
  \<open>RuntimeError\<close>, raised before any layer is built) if and only if the objective is not
  one of \<open>regression\<close>, \<open>binary_classifier\<close>, \<open>multiclass\<close>, or it is \<open>multiclass\<close> with
  \<open>num_predicted_categories \<le> 2\<close>; for every valid combination the constructor raises no
  \<open>RuntimeError\<close>.
\<close>

theorem init_validation:
  "(\<exists>msg. init cfg = Inl (RuntimeError msg)) \<longleftrightarrow>
     (objective cfg \<notin> {''regression'', ''binary_classifier'', ''multiclass''} \<or>
      (objective cfg = ''multiclass'' \<and> num_predicted_categories cfg \<le> 2))"
proof (cases "objective_setup (objective cfg) (num_predicted_categories cfg)")
  case (Inl e)
  then have "init cfg = Inl e" by (rule init_setup_error)
  with Inl show ?thesis
    by (auto simp: objective_setup_def split: if_splits)
next
  case (Inr v)
  have valid: "\<not> (objective cfg \<notin> {''regression'', ''binary_classifier'', ''multiclass''} \<or>
      (objective cfg = ''multiclass'' \<and> num_predicted_categories cfg \<le> 2))"
    using Inr by (auto simp: objective_setup_def split: if_splits)
  have "init cfg \<noteq> Inl (RuntimeError msg)" for msg
  proof (cases "dilations (n_layers cfg) (dil_factor cfg)")
    case (Inl e)
    with Inr have "init cfg = Inl e" by (rule init_dilations_error)
    moreover from Inl have "dil_log2 (dil_factor cfg) = Inl e" by (rule dilations_error)
    then have "e \<noteq> RuntimeError msg" using dil_log2_error by blast
    ultimately show ?thesis by simp
  next
    case (Inr ds)
    with \<open>objective_setup (objective cfg) (num_predicted_categories cfg) = Inr v\<close>
    show ?thesis using init_after_setup [of cfg v ds] by auto
  qed
  with valid show ?thesis by blast
qed

theorem init_validation_witness:
  "(\<exists>msg. init (example_config\<lparr>objective := ''multiclass'', num_predicted_categories := 2\<rparr>)
            = Inl (RuntimeError msg)) \<and>
   \<not> (\<exists>msg. init example_config = Inl (RuntimeError msg))"
  using init_validation [of "example_config\<lparr>objective := ''multiclass'', num_predicted_categories := 2\<rparr>"]
    init_validation [of example_config]
  by (simp add: example_config_def)

text \<open>
  C8. For every \<open>dil_factor < 1\<close> (and any \<open>n_layers\<close>) the constructor raises: either the
  objective validation has already failed, or \<open>int(np.log2(dil_factor))\<close> fails, because
  the logarithm is \<open>nan\<close> or \<open>-inf\<close> or, below \<open>- 2 ^ 63\<close>, because \<^verbatim>\<open>np.log2\<close> itself
  raises.
\<close>

theorem dil_factor_below_one:
  assumes "dil_factor cfg < 1"
  shows "\<exists>e. init cfg = Inl e \<and>
           (objective_setup (objective cfg) (num_predicted_categories cfg) = Inl e \<or>
            dil_log2 (dil_factor cfg) = Inl e)"
proof (cases "objective_setup (objective cfg) (num_predicted_categories cfg)")
  case (Inl e)
  then show ?thesis by (simp add: init_setup_error)
next
  case (Inr v)
  from assms obtain e where e: "dil_log2 (dil_factor cfg) = Inl e"
    using dil_log2_nonpos [of "dil_factor cfg"] by auto
  then have "dilations (n_layers cfg) (dil_factor cfg) = Inl e" by (simp add: dilations_def)
  with Inr have "init cfg = Inl e" by (rule init_dilations_error)
  with e show ?thesis by simp
qed

theorem dil_factor_below_one_witness:
  "dil_factor (example_config\<lparr>dil_factor := 0\<rparr>) < 1 \<and>
   init (example_config\<lparr>dil_factor := 0\<rparr>) =
     Inl (OverflowError ''cannot convert float infinity to integer'')"
  using dil_factor_below_one [of "example_config\<lparr>dil_factor := 0\<rparr>"]
  by (simp add: example_config_def objective_setup_def dil_log2_def np_log2_def)

section \<open>Shapes of the layers\<close>

lemma conv_out_length_same:
  assumes "stride cv = 1" and "2 * padding cv = dilation cv * (conv_kernel_size cv - 1)"
    and "1 \<le> l"
  shows "conv_out_length cv l = Inr l"
  using assms by (simp add: conv_out_length_def Let_def)

lemma ConvLayer_forward_3d:
  assumes "shape x = [n, l, c]" and "c = in_channels cv" and "conv_out_length cv l = Inr l'"
  shows "ConvLayer_forward cv x =
           Inr \<lparr>shape = [n, l', out_channels cv],
                val = TransposeOp (Conv1dOp cv (TransposeOp (val x)))\<rparr>"
  using assms by (simp add: ConvLayer_forward_def transpose12_def Conv1d_forward_def)

lemma ConvLayer_same_length:
  assumes "shape x = [n, l, in_channels cv]" and "1 \<le> l" and "stride cv = 1"
    and "2 * padding cv = dilation cv * (conv_kernel_size cv - 1)"
  shows "\<exists>y. ConvLayer_forward cv x = Inr y \<and> shape y = [n, l, out_channels cv]"
proof -
  from assms(2-4) have "conv_out_length cv l = Inr l" by (simp add: conv_out_length_same)
  with assms(1) show ?thesis by (simp add: ConvLayer_forward_3d)
qed

lemma PositionFeedForward_forward_conv:
  "PositionFeedForward_forward ff x = ConvLayer_forward (pff_conv ff) x"
  by (simp add: PositionFeedForward_forward_def ConvLayer_forward_def)

lemma PositionFeedForward_init_conv:
  "pff_conv (fst (PositionFeedForward_init a b sn n)) =
     \<lparr>in_channels = a, out_channels = b, conv_kernel_size = 1, stride = 1, padding = 0,
      dilation = 1, groups = 1, bias = True, spectral_norm = sn, conv_params = n\<rparr>"
  by (simp add: PositionFeedForward_init_def Conv1d_init_def SpectralNorm_def)

lemma PositionFeedForward_init_shape:
  assumes "shape x = [n, l, a]" and "1 \<le> l"
  shows "\<exists>y. PositionFeedForward_forward (fst (PositionFeedForward_init a b sn k)) x = Inr y \<and>
              shape y = [n, l, b]"
  using ConvLayer_same_length [of x n l "pff_conv (fst (PositionFeedForward_init a b sn k))"] assms
  by (simp add: PositionFeedForward_forward_conv PositionFeedForward_init_conv)

lemma LayerNorm_forward_3d:
  "shape x = [n, l, d] \<Longrightarrow> normalized_shape lnorm = d \<Longrightarrow>
     \<exists>y. LayerNorm_forward lnorm x = Inr y \<and> shape y = [n, l, d]"
  by (simp add: LayerNorm_forward_def)

lemma broadcast_rev_same: "broadcast_rev xs xs = Some xs"
  by (induction xs) simp_all

lemma add_same_shape:
  "shape y = shape x \<Longrightarrow> add x y = Inr \<lparr>shape = shape x, val = AddOp (val x) (val y)\<rparr>"
  by (simp add: add_def broadcast_rev_same)

lemma add_width_mismatch:
  assumes "shape x = [n, l, a]" and "shape y = [n, l, b]" and "a \<noteq> b" and "a \<noteq> 1" and "b \<noteq> 1"
  shows "add x y = Inl (RuntimeError ''The size of tensor a must match the size of tensor b'')"
  using assms by (simp add: add_def)

lemma ConvLayer_init_fields:
  "fst (ConvLayer_init a b k s d g bi n) =
     \<lparr>in_channels = a, out_channels = b, conv_kernel_size = k, stride = s,
      padding = d * (k - 1) div 2, dilation = d, groups = g, bias = bi,
      spectral_norm = False, conv_params = n\<rparr>"
  by (simp add: ConvLayer_init_def Conv1d_init_def)

lemma ByteNetBlock_init_parts:
  "\<exists>norm1 proj1 norm2 norm3 proj2 n1 n3.
     fst (ByteNetBlock_init d_i d_hid d_o k d g use_sn next) =
       \<lparr>conv = (fst (ConvLayer_init d_hid d_hid k 1 d g True next))\<lparr>spectral_norm := use_sn\<rparr>,
        sequence1 = [LayerNormM norm1, GELU, PFF proj1, LayerNormM norm2, GELU],
        sequence2 = [LayerNormM norm3, GELU, PFF proj2]\<rparr> \<and>
     normalized_shape norm1 = d_i \<and> normalized_shape norm2 = d_hid \<and>
     normalized_shape norm3 = d_hid \<and>
     proj1 = fst (PositionFeedForward_init d_i d_hid use_sn n1) \<and>
     proj2 = fst (PositionFeedForward_init d_hid d_o use_sn n3)"
  by (simp add: ByteNetBlock_init_def ConvLayer_init_def Conv1d_init_def LayerNorm_init_def
      PositionFeedForward_init_def SpectralNorm_def Let_def)

lemma ConvLayer_init_same_length:
  assumes "even (d * (k - 1))" and "shape x = [n, l, a]" and "1 \<le> l"
  shows "\<exists>y. ConvLayer_forward (fst (ConvLayer_init a b k 1 d g bi next)) x = Inr y \<and>
              shape y = [n, l, b]"
proof -
  from assms(1) have "2 * (d * (k - 1) div 2) = d * (k - 1)" by simp
  with assms(2,3) show ?thesis
    using ConvLayer_same_length [of x n l "fst (ConvLayer_init a b k 1 d g bi next)"]
    by (simp add: ConvLayer_init_fields)
qed

lemma ConvLayer_init_one_shorter:
  assumes "odd (d * (k - 1))" and "shape x = [n, l, a]" and "2 \<le> l"
  shows "result_shape (ConvLayer_forward (fst (ConvLayer_init a b k 1 d g bi next)) x) =
           Inr [n, l - 1, b]"
proof -
  from assms(1) have "2 * (d * (k - 1) div 2) + 1 = d * (k - 1)"
    by (rule odd_two_times_div_two_succ)
  then have "2 * (d * (k - 1) div 2) = d * (k - 1) - 1" by linarith
  with assms(3) have "conv_out_length (fst (ConvLayer_init a b k 1 d g bi next)) l = Inr (l - 1)"
    by (simp add: conv_out_length_def ConvLayer_init_fields Let_def)
  with assms(2) show ?thesis
    by (simp add: ConvLayer_forward_3d ConvLayer_init_fields result_shape_def)
qed

text \<open>
  C4 (divergence). The padding is \<open>dilation * (kernel_size - 1) // 2\<close>, but the output
  length equals the input length only when \<open>dilation * (kernel_size - 1)\<close> is even
  (lemma \<open>ConvLayer_init_same_length\<close>; when it is odd, one position is lost, lemma
  \<open>ConvLayer_init_one_shorter\<close>). With kernel size 2, dilation 1 and stride 1 the
  padding is 0 and an input of shape \<open>(1, 5, 4)\<close> comes out with shape \<open>(1, 4, 6)\<close>:
  one position is lost.
\<close>

theorem ConvLayer_even_kernel:
  "padding (fst (ConvLayer_init 4 6 2 1 1 1 True 0)) = 0 \<and>
   result_shape (ConvLayer_forward (fst (ConvLayer_init 4 6 2 1 1 1 True 0))
       \<lparr>shape = [1, 5, 4], val = Leaf 0\<rparr>) = Inr [1, 4, 6]"
  by (simp add: ConvLayer_init_def Conv1d_init_def ConvLayer_forward_def Conv1d_forward_def
      conv_out_length_def transpose12_def result_shape_def)

section \<open>The residual block\<close>

lemma ByteNetBlock_forward_stages:
  assumes "sequence1 blk = [LayerNormM norm1, GELU, PFF proj1, LayerNormM norm2, GELU]"
    and "sequence2 blk = [LayerNormM norm3, GELU, PFF proj2]"
  shows "ByteNetBlock_forward blk x =
           and_then (residual_stages norm1 proj1 norm2 (conv blk) norm3 proj2 x) (add x)"
  using assms
  by (simp add: ByteNetBlock_forward_def residual_stages_def and_then_def split: sum.splits)

lemma gelu_shape [simp]: "shape (gelu x) = shape x"
  by (simp add: gelu_def)

lemma residual_stages_shape:
  assumes x: "shape x = [n, l, d_i]" and l: "1 \<le> l"
    and n1: "normalized_shape norm1 = d_i" and n2: "normalized_shape norm2 = d_hid"
    and n3: "normalized_shape norm3 = d_hid"
    and p1: "proj1 = fst (PositionFeedForward_init d_i d_hid sn1 k1)"
    and p2: "proj2 = fst (PositionFeedForward_init d_hid d_o sn2 k2)"
    and cv: "in_channels cv = d_hid" "out_channels cv = d_hid" "stride cv = 1"
      "2 * padding cv = dilation cv * (conv_kernel_size cv - 1)"
  shows "\<exists>y. residual_stages norm1 proj1 norm2 cv norm3 proj2 x = Inr y \<and> shape y = [n, l, d_o]"
proof -
  from x n1 obtain a where a: "LayerNorm_forward norm1 x = Inr a" "shape a = [n, l, d_i]"
    using LayerNorm_forward_3d by blast
  from a(2) l obtain b where b: "PositionFeedForward_forward proj1 (gelu a) = Inr b"
      "shape b = [n, l, d_hid]"
    unfolding p1 using PositionFeedForward_init_shape [of "gelu a" n l d_i d_hid sn1 k1] by auto
  from b(2) n2 obtain c where c: "LayerNorm_forward norm2 b = Inr c" "shape c = [n, l, d_hid]"
    using LayerNorm_forward_3d by blast
  from c(2) l cv obtain d where d: "ConvLayer_forward cv (gelu c) = Inr d"
      "shape d = [n, l, d_hid]"
    using ConvLayer_same_length [of "gelu c" n l cv] by auto
  from d(2) n3 obtain e where e: "LayerNorm_forward norm3 d = Inr e" "shape e = [n, l, d_hid]"
    using LayerNorm_forward_3d by blast
  from e(2) l obtain y where y: "PositionFeedForward_forward proj2 (gelu e) = Inr y"
      "shape y = [n, l, d_o]"
    unfolding p2 using PositionFeedForward_init_shape [of "gelu e" n l d_hid d_o sn2 k2] by auto
  from a(1) b(1) c(1) d(1) e(1) y show ?thesis
    by (simp add: residual_stages_def)
qed

lemma ByteNetBlock_init_forward:
  assumes blk: "blk = fst (ByteNetBlock_init d_i d_hid d_o k d g use_sn next)"
    and x: "shape x = [n, l, d_i]" and l: "1 \<le> l" and ev: "even (d * (k - 1))"
  shows "\<exists>norm1 proj1 norm2 norm3 proj2 y.
           normalized_shape norm1 = d_i \<and>
           in_channels (pff_conv proj1) = d_i \<and> out_channels (pff_conv proj1) = d_hid \<and>
           normalized_shape norm2 = d_hid \<and>
           in_channels (conv blk) = d_hid \<and> out_channels (conv blk) = d_hid \<and>
           conv_kernel_size (conv blk) = k \<and> dilation (conv blk) = d \<and>
           normalized_shape norm3 = d_hid \<and>
           in_channels (pff_conv proj2) = d_hid \<and> out_channels (pff_conv proj2) = d_o \<and>
           residual_stages norm1 proj1 norm2 (conv blk) norm3 proj2 x = Inr y \<and>
           shape y = [n, l, d_o] \<and>
           ByteNetBlock_forward blk x = add x y \<and>
           (d_i = d_o \<longrightarrow> result_shape (ByteNetBlock_forward blk x) = Inr (shape x)) \<and>
           (d_i \<noteq> d_o \<and> d_i \<noteq> 1 \<and> d_o \<noteq> 1 \<longrightarrow>
              ByteNetBlock_forward blk x =
                Inl (RuntimeError ''The size of tensor a must match the size of tensor b''))"
proof -
  from ByteNetBlock_init_parts [of d_i d_hid d_o k d g use_sn "next"] blk
  obtain norm1 proj1 norm2 norm3 proj2 n1 n3 where
    parts: "blk = \<lparr>conv = (fst (ConvLayer_init d_hid d_hid k 1 d g True next))\<lparr>spectral_norm := use_sn\<rparr>,
        sequence1 = [LayerNormM norm1, GELU, PFF proj1, LayerNormM norm2, GELU],
        sequence2 = [LayerNormM norm3, GELU, PFF proj2]\<rparr>"
    and norms: "normalized_shape norm1 = d_i" "normalized_shape norm2 = d_hid"
      "normalized_shape norm3 = d_hid"
    and p1: "proj1 = fst (PositionFeedForward_init d_i d_hid use_sn n1)"
    and p2: "proj2 = fst (PositionFeedForward_init d_hid d_o use_sn n3)"
    by auto
  from ev have pad: "2 * (d * (k - 1) div 2) = d * (k - 1)" by simp
  have cv: "in_channels (conv blk) = d_hid" "out_channels (conv blk) = d_hid"
    "stride (conv blk) = 1" "conv_kernel_size (conv blk) = k" "dilation (conv blk) = d"
    "2 * padding (conv blk) = dilation (conv blk) * (conv_kernel_size (conv blk) - 1)"
    using pad by (simp_all add: parts ConvLayer_init_fields)
  from residual_stages_shape [OF x l norms p1 p2 cv(1,2,3,6)]
  obtain y where y: "residual_stages norm1 proj1 norm2 (conv blk) norm3 proj2 x = Inr y"
    "shape y = [n, l, d_o]" by blast
  have fwd: "ByteNetBlock_forward blk x = add x y"
    using ByteNetBlock_forward_stages [of blk norm1 proj1 norm2 norm3 proj2 x] y(1)
    by (simp add: parts)
  have same: "result_shape (ByteNetBlock_forward blk x) = Inr (shape x)" if "d_i = d_o"
    using that x y(2) by (simp add: fwd add_same_shape result_shape_def)
  have differ: "ByteNetBlock_forward blk x =
      Inl (RuntimeError ''The size of tensor a must match the size of tensor b'')"
    if "d_i \<noteq> d_o \<and> d_i \<noteq> 1 \<and> d_o \<noteq> 1"
    using that x y(2) by (simp add: fwd add_width_mismatch)
  have widths: "in_channels (pff_conv proj1) = d_i" "out_channels (pff_conv proj1) = d_hid"
    "in_channels (pff_conv proj2) = d_hid" "out_channels (pff_conv proj2) = d_o"
    by (simp_all add: p1 p2 PositionFeedForward_init_conv)
  from norms widths cv(1,2,4,5) y fwd same differ show ?thesis by blast
qed

text \<open>
  C6 (counterexample). With \<open>d_in = 1\<close> and \<open>d_out = 3\<close> the residual sum does not fail:
  the input of shape \<open>(1, 4, 1)\<close> is broadcast along its last axis and the block returns
  shape \<open>(1, 4, 3)\<close>.
\<close>

theorem ByteNetBlock_broadcast_counterexample:
  "result_shape (ByteNetBlock_forward (fst (ByteNetBlock_init 1 2 3 3 1 1 False 0))
       \<lparr>shape = [1, 4, 1], val = Leaf 0\<rparr>) = Inr [1, 4, 3]"
  by (simp add: ByteNetBlock_init_def ConvLayer_init_def Conv1d_init_def LayerNorm_init_def
      PositionFeedForward_init_def ByteNetBlock_forward_def ConvLayer_forward_def
      PositionFeedForward_forward_def Conv1d_forward_def conv_out_length_def transpose12_def
      LayerNorm_forward_def gelu_def add_def result_shape_def)

text \<open>
  C6 (amended). For a block built by the constructor from positive sizes (with a group
  count that divides the hidden width) whose convolution keeps the length
  (\<open>dilation * (kernel_size - 1)\<close> even) and an input of shape \<open>(n, l, d_in)\<close> with
  \<open>l \<ge> 1\<close>: the output is the input plus the result \<open>y\<close> of the stages in the
  specification's order, at the stated widths; when \<open>d_in = d_out\<close> the output shape is
  the input shape; when \<open>d_in \<noteq> d_out\<close> and neither width is 1, the residual sum raises.
\<close>

theorem ByteNetBlock_forward_residual:
  assumes blk: "blk = fst (ByteNetBlock_init d_i d_hid d_o k d g use_sn next)"
    and x: "shape x = [n, l, d_i]" and l: "1 \<le> l" and ev: "even (d * (k - 1))"
    and sizes: "0 < d_i" "0 < d_hid" "0 < d_o" "1 \<le> k" "1 \<le> d" "0 < g" "g dvd d_hid"
  shows "\<exists>norm1 proj1 norm2 norm3 proj2 y.
           normalized_shape norm1 = d_i \<and>
           in_channels (pff_conv proj1) = d_i \<and> out_channels (pff_conv proj1) = d_hid \<and>
           normalized_shape norm2 = d_hid \<and>
           in_channels (conv blk) = d_hid \<and> out_channels (conv blk) = d_hid \<and>
           conv_kernel_size (conv blk) = k \<and> dilation (conv blk) = d \<and>
           normalized_shape norm3 = d_hid \<and>
           in_channels (pff_conv proj2) = d_hid \<and> out_channels (pff_conv proj2) = d_o \<and>
           residual_stages norm1 proj1 norm2 (conv blk) norm3 proj2 x = Inr y \<and>
           shape y = [n, l, d_o] \<and>
           ByteNetBlock_forward blk x = add x y \<and>
           (d_i = d_o \<longrightarrow> result_shape (ByteNetBlock_forward blk x) = Inr (shape x)) \<and>
           (d_i \<noteq> d_o \<and> d_i \<noteq> 1 \<and> d_o \<noteq> 1 \<longrightarrow>
              ByteNetBlock_forward blk x =
                Inl (RuntimeError ''The size of tensor a must match the size of tensor b''))"
  using ByteNetBlock_init_forward [OF blk x l ev] .

theorem ByteNetBlock_forward_residual_witness:
  "result_shape (ByteNetBlock_forward (fst (ByteNetBlock_init 8 4 8 3 2 1 False 0))
       \<lparr>shape = [2, 5, 8], val = Leaf 0\<rparr>) = Inr [2, 5, 8] \<and>
   ByteNetBlock_forward (fst (ByteNetBlock_init 8 4 6 3 2 1 False 0))
       \<lparr>shape = [2, 5, 8], val = Leaf 0\<rparr> =
     Inl (RuntimeError ''The size of tensor a must match the size of tensor b'')"
  using ByteNetBlock_forward_residual [of "fst (ByteNetBlock_init 8 4 8 3 2 1 False 0)"
        8 4 8 3 2 1 False 0 "\<lparr>shape = [2, 5, 8], val = Leaf 0\<rparr>" 2 5]
    ByteNetBlock_forward_residual [of "fst (ByteNetBlock_init 8 4 6 3 2 1 False 0)"
        8 4 6 3 2 1 False 0 "\<lparr>shape = [2, 5, 8], val = Leaf 0\<rparr>" 2 5]
  by auto

section \<open>The encoder tower\<close>

lemma ByteNetBlock_list_members:
  "blk \<in> set (fst (ByteNetBlock_list d_i d_hid d_o k sn ds n)) \<Longrightarrow>
     \<exists>d \<in> set ds. \<exists>n'. blk = fst (ByteNetBlock_init d_i d_hid d_o k d 1 sn n')"
proof (induction ds arbitrary: n)
  case Nil
  then show ?case by simp
next
  case (Cons d ds)
  then show ?case
    by (auto simp: Let_def case_prod_beta)
qed

lemma block_keeps_shape:
  assumes "blk = fst (ByteNetBlock_init h d_hid h k d g sn n')" and "even (d * (k - 1))"
    and "shape x = [n, l, h]" and "1 \<le> l"
  shows "\<exists>y. ByteNetBlock_forward blk x = Inr y \<and> shape y = [n, l, h]"
proof -
  from ByteNetBlock_init_forward [OF assms(1,3,4,2)]
  obtain y where "shape y = [n, l, h]" "ByteNetBlock_forward blk x = add x y" by blast
  with assms(3) show ?thesis by (simp add: add_same_shape)
qed

lemma antibody_loop_shape:
  assumes "\<And>blk x. blk \<in> set blks \<Longrightarrow> shape x = [n, l, h] \<Longrightarrow>
             \<exists>y. ByteNetBlock_forward blk x = Inr y \<and> shape y = [n, l, h]"
    and "p \<le> 1" and "shape x = [n, l, h]"
  shows "\<exists>y. antibody_loop p tr blks x = Inr y \<and> shape y = [n, l, h]"
  using assms
proof (induction blks arbitrary: x)
  case Nil
  then show ?case by simp
next
  case (Cons blk blks)
  from Cons.prems(1) [of blk x] Cons.prems(3)
  obtain y where y: "ByteNetBlock_forward blk x = Inr y" "shape y = [n, l, h]" by auto
  have rest: "\<exists>z. antibody_loop p tr blks t = Inr z \<and> shape z = [n, l, h]"
    if "shape t = [n, l, h]" for t
    using Cons.IH [of t] Cons.prems(1,2) that by simp
  show ?case
  proof (cases "0 < p \<and> tr")
    case True
    with Cons.prems(2) have "F_dropout y p = Inr \<lparr>shape = shape y, val = DropoutOp p (val y)\<rparr>"
      by (simp add: F_dropout_def)
    with True y rest [of "\<lparr>shape = shape y, val = DropoutOp p (val y)\<rparr>"] show ?thesis
      by simp
  next
    case False
    with y rest [of y] show ?thesis by auto
  qed
qed

lemma init_Inr:
  assumes "init cfg = Inr m"
  obtains nclasses lik dils where
    "objective_setup (objective cfg) (num_predicted_categories cfg) = Inr (nclasses, lik)"
    "dilations (n_layers cfg) (dil_factor cfg) = Inr dils"
proof (cases "objective_setup (objective cfg) (num_predicted_categories cfg)")
  case (Inl e)
  with assms show ?thesis by (simp add: init_def)
next
  case v: (Inr v)
  show ?thesis
  proof (cases "dilations (n_layers cfg) (dil_factor cfg)")
    case (Inl e)
    with assms v show ?thesis by (cases v) (simp add: init_def)
  next
    case (Inr dils)
    with v that show ?thesis by (cases v) auto
  qed
qed

lemma init_gp_likelihood:
  assumes "init cfg = Inr m"
    and "objective_setup (objective cfg) (num_predicted_categories cfg) = Inr (nclasses, lik)"
    and "llgp cfg"
  shows "lik \<noteq> ''multiclass''"
proof
  assume "lik = ''multiclass''"
  moreover from assms(1) obtain dils where "dilations (n_layers cfg) (dil_factor cfg) = Inr dils"
    by (rule init_Inr)
  ultimately have "\<exists>e. init cfg = Inl e"
    using assms(2,3) by (simp add: init_def Let_def case_prod_beta VanillaRFFLayer_init_def)
  with assms(1) show False by auto
qed

lemma init_tower_fields:
  assumes "init cfg = Inr m" and "dilations (n_layers cfg) (dil_factor cfg) = Inr dils"
  shows "adjuster m = fst (PositionFeedForward_init (input_dim cfg) (hidden_dim cfg) (llgp cfg) 0)"
    and "\<exists>n. antibody_layers m =
           fst (ByteNetBlock_list (hidden_dim cfg)
                  (if slim cfg then hidden_dim cfg div 2 else hidden_dim cfg)
                  (hidden_dim cfg) (kernel_size cfg) (llgp cfg) dils n)"
    and "\<exists>n. down_adjuster m =
           fst (PositionFeedForward_init (hidden_dim cfg) (rep_dim cfg) (llgp cfg) n)"
    and "normalized_shape (final_lnorm m) = rep_dim cfg"
    and "self_dropout m = dropout cfg"
proof -
  from assms(1) obtain nclasses lik dils' where
    v: "objective_setup (objective cfg) (num_predicted_categories cfg) = Inr (nclasses, lik)"
    by (rule init_Inr)
  have gp: "lik \<noteq> ''multiclass''" if "llgp cfg"
    using assms(1) v that by (rule init_gp_likelihood)
  from assms v have m: "m = projr (init cfg)" by simp
  show "adjuster m = fst (PositionFeedForward_init (input_dim cfg) (hidden_dim cfg) (llgp cfg) 0)"
    unfolding m using v assms(2) gp
    by (cases "llgp cfg")
      (simp_all add: init_def Let_def case_prod_beta VanillaRFFLayer_init_def)
  show "\<exists>n. antibody_layers m =
           fst (ByteNetBlock_list (hidden_dim cfg)
                  (if slim cfg then hidden_dim cfg div 2 else hidden_dim cfg)
                  (hidden_dim cfg) (kernel_size cfg) (llgp cfg) dils n)"
    unfolding m using v assms(2) gp
    by (cases "llgp cfg";
        simp add: init_def Let_def case_prod_beta VanillaRFFLayer_init_def; blast)
  show "\<exists>n. down_adjuster m =
           fst (PositionFeedForward_init (hidden_dim cfg) (rep_dim cfg) (llgp cfg) n)"
    unfolding m using v assms(2) gp
    by (cases "llgp cfg";
        simp add: init_def Let_def case_prod_beta VanillaRFFLayer_init_def; blast)
  show "normalized_shape (final_lnorm m) = rep_dim cfg"
    unfolding m using v assms(2) gp
    by (cases "llgp cfg")
      (simp_all add: init_def Let_def case_prod_beta VanillaRFFLayer_init_def LayerNorm_init_def)
  show "self_dropout m = dropout cfg"
    unfolding m using v assms(2) gp
    by (cases "llgp cfg")
      (simp_all add: init_def Let_def case_prod_beta VanillaRFFLayer_init_def)
qed

lemma init_head_fields:
  assumes "init cfg = Inr m"
    and "objective_setup (objective cfg) (num_predicted_categories cfg) = Inr (nclasses, lik)"
  shows "self_objective m = objective cfg" and "self_llgp m = llgp cfg" and "training m"
    and "llgp cfg \<Longrightarrow>
           \<exists>gp. VanillaRFFLayer_init (rep_dim cfg) 1024 1 (999 / 1000) (1 / 1000) lik 123 = Inr gp \<and>
                out_layer m = GP gp"
    and "\<not> llgp cfg \<Longrightarrow>
           \<exists>l. out_layer m = Lin l \<and> in_features l = rep_dim cfg \<and> out_features l = nclasses"
proof -
  from assms(1) obtain dils where d: "dilations (n_layers cfg) (dil_factor cfg) = Inr dils"
    by (rule init_Inr)
  have gp: "lik \<noteq> ''multiclass''" if "llgp cfg"
    using assms that by (rule init_gp_likelihood)
  from assms have m: "m = projr (init cfg)" by simp
  show "self_objective m = objective cfg" and "self_llgp m = llgp cfg" and "training m"
    unfolding m using d assms(2) gp
    by (cases "llgp cfg";
        simp add: init_def Let_def case_prod_beta VanillaRFFLayer_init_def)+
  show "\<exists>gp. VanillaRFFLayer_init (rep_dim cfg) 1024 1 (999 / 1000) (1 / 1000) lik 123 = Inr gp \<and>
             out_layer m = GP gp"
    if "llgp cfg"
    unfolding m using d assms(2) that gp
    by (simp add: init_def Let_def case_prod_beta VanillaRFFLayer_init_def)
  show "\<exists>l. out_layer m = Lin l \<and> in_features l = rep_dim cfg \<and> out_features l = nclasses"
    if "\<not> llgp cfg"
    unfolding m using d assms(2) that
    by (simp add: init_def Let_def case_prod_beta Linear_init_def)
qed

lemma mean_dim1_3d:
  "shape x = [n, l, d] \<Longrightarrow> mean_dim1 x = Inr \<lparr>shape = [n, d], val = MeanOp (val x)\<rparr>"
  by (simp add: mean_dim1_def)

lemma encoder_tower_init_shape:
  assumes m: "init cfg = Inr m" and wc: "well_constructed cfg"
    and x: "shape x = [n, l, input_dim cfg]" and l: "1 \<le> l"
  shows "\<exists>rep. encoder_tower (m\<lparr>training := tr\<rparr>) x = Inr rep \<and> shape rep = [n, rep_dim cfg]"
proof -
  from m obtain nclasses lik dils where
    dils: "dilations (n_layers cfg) (dil_factor cfg) = Inr dils" by (rule init_Inr)
  note f = init_tower_fields [OF m dils]
  from f(2) obtain n2 where ab: "antibody_layers m =
      fst (ByteNetBlock_list (hidden_dim cfg)
             (if slim cfg then hidden_dim cfg div 2 else hidden_dim cfg)
             (hidden_dim cfg) (kernel_size cfg) (llgp cfg) dils n2)" by blast
  from f(3) obtain n4 where down: "down_adjuster m =
      fst (PositionFeedForward_init (hidden_dim cfg) (rep_dim cfg) (llgp cfg) n4)" by blast
  from x l obtain x1 where x1: "PositionFeedForward_forward (adjuster m) x = Inr x1"
      "shape x1 = [n, l, hidden_dim cfg]"
    unfolding f(1) using PositionFeedForward_init_shape by blast
  have blocks: "\<exists>y. ByteNetBlock_forward blk t = Inr y \<and> shape y = [n, l, hidden_dim cfg]"
    if "blk \<in> set (antibody_layers m)" and "shape t = [n, l, hidden_dim cfg]" for blk t
  proof -
    from that(1) obtain d n' where d: "d \<in> set dils"
      and blk: "blk = fst (ByteNetBlock_init (hidden_dim cfg)
             (if slim cfg then hidden_dim cfg div 2 else hidden_dim cfg)
             (hidden_dim cfg) (kernel_size cfg) d 1 (llgp cfg) n')"
      unfolding ab using ByteNetBlock_list_members by blast
    from wc have "even (kernel_size cfg - 1)" by (simp add: well_constructed_def)
    then have "even (d * (kernel_size cfg - 1))" by simp
    with blk that(2) l show ?thesis using block_keeps_shape by blast
  qed
  from wc have "self_dropout m \<le> 1" by (simp add: f(5) well_constructed_def)
  with blocks x1(2) obtain x2 where
    x2: "antibody_loop (self_dropout m) tr (antibody_layers m) x1 = Inr x2"
      "shape x2 = [n, l, hidden_dim cfg]"
    using antibody_loop_shape [of "antibody_layers m" n l "hidden_dim cfg" "self_dropout m" x1 tr]
    by blast
  from x2(2) l obtain x3 where x3: "PositionFeedForward_forward (down_adjuster m) x2 = Inr x3"
      "shape x3 = [n, l, rep_dim cfg]"
    unfolding down using PositionFeedForward_init_shape by blast
  from x3(2) have x4: "mean_dim1 x3 = Inr \<lparr>shape = [n, rep_dim cfg], val = MeanOp (val x3)\<rparr>"
    by (rule mean_dim1_3d)
  have "LayerNorm_forward (final_lnorm m) \<lparr>shape = [n, rep_dim cfg], val = MeanOp (val x3)\<rparr> =
          Inr \<lparr>shape = [n, rep_dim cfg], val = LayerNormOp (final_lnorm m) (MeanOp (val x3))\<rparr>"
    by (simp add: LayerNorm_forward_def f(4))
  with x1(1) x2(1) x3(1) x4 show ?thesis
    by (simp add: encoder_tower_def)
qed

lemmas init_defs = init_def objective_setup_def PositionFeedForward_init_def Conv1d_init_def
  ConvLayer_init_def ByteNetBlock_init_def LayerNorm_init_def Linear_init_def
  VanillaRFFLayer_init_def SpectralNorm_def SpectralNorm_linear_def

lemmas forward_defs = forward_def encoder_tower_def PositionFeedForward_forward_def
  ByteNetBlock_forward_def ConvLayer_forward_def Conv1d_forward_def conv_out_length_def
  transpose12_def LayerNorm_forward_def gelu_def add_def mean_dim1_def squeeze1_def
  F_softmax_def F_sigmoid_def point_prediction_def call_out_layer_def
  VanillaRFFLayer_forward_def Linear_forward_def F_dropout_def

lemma dilations_2_2: "dilations 2 2 = Inr [1, 2]"
proof -
  have "dil_log2 2 = Inr (bitlen 2)" by (rule dil_log2_exact) simp_all
  then have "dil_log2 2 = Inr 2" by (simp add: compute_bitlen)
  then show ?thesis using dilations_period [of 2 2 2] by (simp add: upt_rec)
qed

lemma init_example: "\<exists>m. init example_config = Inr m"
  by (simp add: example_config_def init_defs dilations_2_2 Let_def)

text \<open>
  C5. For a model returned by the constructor from a well-constructed configuration, in
  training or in evaluation mode, and an input of shape \<open>(n, l, input_dim)\<close> with
  \<open>l \<ge> 1\<close>, the encoder tower (adjuster, residual blocks with dropout, down-projection,
  mean over the length axis, normalization) returns a representation of shape
  \<open>(n, rep_dim)\<close>, whatever \<open>l\<close> is.
\<close>

theorem encoder_tower_pooled_shape:
  assumes "init cfg = Inr m" and "well_constructed cfg"
    and "shape x = [n, l, input_dim cfg]" and "1 \<le> l"
  shows "result_shape (encoder_tower (m\<lparr>training := tr\<rparr>) x) = Inr [n, rep_dim cfg]"
  using encoder_tower_init_shape [OF assms, of tr] by (auto simp: result_shape_def)

theorem encoder_tower_pooled_shape_witness:
  "well_constructed example_config \<and>
   result_shape (encoder_tower (projr (init example_config)) example_input) = Inr [2, 4] \<and>
   result_shape (encoder_tower (projr (init example_config))
       \<lparr>shape = [7, 1, 21], val = Leaf 1\<rparr>) = Inr [7, 4]"
proof -
  from init_example obtain m where m: "init example_config = Inr m" by blast
  have wc: "well_constructed example_config"
    by (simp add: well_constructed_def example_config_def)
  have tr: "m\<lparr>training := True\<rparr> = m"
    using m by (simp add: example_config_def init_defs dilations_2_2 Let_def) auto
  have "result_shape (encoder_tower (m\<lparr>training := True\<rparr>) example_input) = Inr [2, rep_dim example_config]"
    using encoder_tower_pooled_shape [OF m wc, of example_input 2 5 True]
    by (simp add: example_input_def example_config_def)
  moreover
  have "result_shape (encoder_tower (m\<lparr>training := True\<rparr>) \<lparr>shape = [7, 1, 21], val = Leaf 1\<rparr>)
          = Inr [7, rep_dim example_config]"
    using encoder_tower_pooled_shape [OF m wc, of "\<lparr>shape = [7, 1, 21], val = Leaf 1\<rparr>" 7 1 True]
    by (simp add: example_config_def)
  ultimately show ?thesis using wc m tr by (simp add: example_config_def)
qed

section \<open>The multiclass head\<close>

lemma Linear_forward_2d:
  "shape x = [n, in_features l] \<Longrightarrow>
     Linear_forward l x = Inr \<lparr>shape = [n, out_features l], val = LinearOp l (val x)\<rparr>"
  by (simp add: Linear_forward_def)

lemma forward_multiclass_linear_head:
  assumes m: "init cfg = Inr m" and wc: "well_constructed cfg"
    and obj: "objective cfg = ''multiclass''" and lin: "\<not> llgp cfg"
    and x: "shape x = [n, l, input_dim cfg]" and l: "1 \<le> l"
  shows "\<exists>logits. forward m x up gv = Inr (Preds (F_softmax logits), m) \<and>
           shape logits = [n, num_predicted_categories cfg] \<and>
           2 < num_predicted_categories cfg"
proof -
  from m obtain nclasses lik dils where
    v: "objective_setup (objective cfg) (num_predicted_categories cfg) = Inr (nclasses, lik)"
    by (rule init_Inr)
  with obj have nc: "nclasses = num_predicted_categories cfg" "2 < num_predicted_categories cfg"
    by (auto simp: objective_setup_def split: if_splits)
  note h = init_head_fields [OF m v]
  from h(5) lin obtain lyr where lyr: "out_layer m = Lin lyr" "in_features lyr = rep_dim cfg"
    "out_features lyr = nclasses" by blast
  from encoder_tower_init_shape [OF m wc x l, of "training m"]
  obtain rep where rep: "encoder_tower m x = Inr rep" "shape rep = [n, rep_dim cfg]"
    by auto
  from rep(2) lyr(2) have "Linear_forward lyr rep =
      Inr \<lparr>shape = [n, out_features lyr], val = LinearOp lyr (val rep)\<rparr>"
    by (simp add: Linear_forward_2d)
  with lyr(1) lin h(2) have "point_prediction m rep up =
      Inr (\<lparr>shape = [n, out_features lyr], val = LinearOp lyr (val rep)\<rparr>, Lin lyr)"
    by (simp add: point_prediction_def call_out_layer_def)
  moreover have "m\<lparr>out_layer := Lin lyr\<rparr> = m" using lyr(1) by simp
  ultimately have "forward m x up gv =
      Inr (Preds (F_softmax \<lparr>shape = [n, out_features lyr], val = LinearOp lyr (val rep)\<rparr>), m)"
    using rep(1) obj h(1) by (simp add: forward_def)
  with lyr(3) nc show ?thesis by auto
qed

lemma forward_multiclass_linear_example:
  "returned_shapes
     (and_then (init (example_config\<lparr>objective := ''multiclass'',
                                      num_predicted_categories := 3\<rparr>))
        (\<lambda>m. forward m example_input False False)) = Inr [[2, 3]]"
  by (simp add: example_config_def example_input_def init_defs dilations_2_2 Let_def
      forward_defs returned_shapes_def)

lemma dil_log2_total: "1 \<le> x \<Longrightarrow> x < 2 ^ 64 \<Longrightarrow> \<exists>p. dil_log2 x = Inr p"
  by (simp add: dil_log2_def np_log2_def)

lemma init_gp_multiclass:
  assumes "objective_setup (objective cfg) (num_predicted_categories cfg) =
             Inr (nclasses, ''multiclass'')"
    and "dilations (n_layers cfg) (dil_factor cfg) = Inr dils" and "llgp cfg"
  shows "init cfg = Inl (ValueError ''multiclass likelihood needs more than one out target'')"
  using assms by (simp add: init_def Let_def case_prod_beta VanillaRFFLayer_init_def)

lemma forward_multiclass_constructed:
  assumes m: "init cfg = Inr m" and wc: "well_constructed cfg"
    and obj: "objective cfg = ''multiclass''"
    and x: "shape x = [n, l, input_dim cfg]" and l: "1 \<le> l"
  shows "\<not> llgp cfg"
    and "\<exists>logits. forward m x up gv = Inr (Preds (F_softmax logits), m) \<and>
           shape logits = [n, num_predicted_categories cfg] \<and>
           2 < num_predicted_categories cfg"
proof -
  from m obtain nclasses lik where
    v: "objective_setup (objective cfg) (num_predicted_categories cfg) = Inr (nclasses, lik)"
    by (rule init_Inr)
  with obj have "lik = ''multiclass''"
    by (auto simp: objective_setup_def split: if_splits)
  with init_gp_likelihood [OF m v] show lin: "\<not> llgp cfg" by blast
  from m wc obj lin x l
  show "\<exists>logits. forward m x up gv = Inr (Preds (F_softmax logits), m) \<and>
           shape logits = [n, num_predicted_categories cfg] \<and>
           2 < num_predicted_categories cfg"
    by (rule forward_multiclass_linear_head)
qed

text \<open>
  C1 (divergence). With the linear head the multiclass output is the softmax of a head
  output of width \<open>c\<close> and has shape \<open>(B, c)\<close> (lemma
  \<open>forward_multiclass_linear_head\<close>). With \<open>llgp = True\<close> the constructor asks for the GP
  head with \<open>out_targets = 1\<close> whatever the category count is (\<open>nclasses\<close> is not used), the
  head's constructor refuses a multiclass likelihood with one output target, and the
  constructor of the model raises: no model with \<open>llgp = True\<close> and objective
  \<open>multiclass\<close> is constructed, for 3 categories or any other count, and when the objective
  and the dilation factor are valid the exception is the head's \<open>ValueError\<close>.
\<close>

theorem init_multiclass_gp_head:
  assumes "objective cfg = ''multiclass''" and "llgp cfg"
  shows "(\<exists>e. init cfg = Inl e) \<and>
         (2 < num_predicted_categories cfg \<longrightarrow> 1 \<le> dil_factor cfg \<longrightarrow> dil_factor cfg < 2 ^ 64 \<longrightarrow>
            (\<exists>msg. init cfg = Inl (ValueError msg)))"
proof (intro conjI impI)
  show "\<exists>e. init cfg = Inl e"
  proof (cases "init cfg")
    case (Inl e)
    then show ?thesis by blast
  next
    case (Inr m)
    then obtain nclasses lik where
      v: "objective_setup (objective cfg) (num_predicted_categories cfg) = Inr (nclasses, lik)"
      by (rule init_Inr)
    with assms(1) have "lik = ''multiclass''"
      by (auto simp: objective_setup_def split: if_splits)
    with init_gp_likelihood [OF Inr v assms(2)] show ?thesis by simp
  qed
next
  assume c: "2 < num_predicted_categories cfg"
    and lo: "1 \<le> dil_factor cfg" and hi: "dil_factor cfg < 2 ^ 64"
  from assms(1) c have v: "objective_setup (objective cfg) (num_predicted_categories cfg) =
      Inr (num_predicted_categories cfg, ''multiclass'')"
    by (simp add: objective_setup_def)
  from lo hi obtain p where "dil_log2 (dil_factor cfg) = Inr p"
    using dil_log2_total by blast
  then have "dilations (n_layers cfg) (dil_factor cfg) =
      Inr (map (\<lambda>n. 2 ^ (n mod nat p)) [0..<nat (n_layers cfg)])"
    by (rule dilations_period)
  with v have "init cfg = Inl (ValueError ''multiclass likelihood needs more than one out target'')"
    using assms(2) by (rule init_gp_multiclass)
  then show "\<exists>msg. init cfg = Inl (ValueError msg)" by blast
qed

theorem init_multiclass_gp_head_witness:
  "objective (example_config\<lparr>llgp := True, objective := ''multiclass'',
                             num_predicted_categories := 3\<rparr>) = ''multiclass'' \<and>
   llgp (example_config\<lparr>llgp := True, objective := ''multiclass'',
                        num_predicted_categories := 3\<rparr>) \<and>
   2 < num_predicted_categories (example_config\<lparr>llgp := True, objective := ''multiclass'',
                                                num_predicted_categories := 3\<rparr>) \<and>
   1 \<le> dil_factor (example_config\<lparr>llgp := True, objective := ''multiclass'',
                                   num_predicted_categories := 3\<rparr>) \<and>
   dil_factor (example_config\<lparr>llgp := True, objective := ''multiclass'',
                              num_predicted_categories := 3\<rparr>) < 2 ^ 64 \<and>
   init (example_config\<lparr>llgp := True, objective := ''multiclass'',
                        num_predicted_categories := 3\<rparr>) =
     Inl (ValueError ''multiclass likelihood needs more than one out target'')"
  using init_multiclass_gp_head [of "example_config\<lparr>llgp := True, objective := ''multiclass'',
                                                    num_predicted_categories := 3\<rparr>"]
  by (simp add: example_config_def init_defs dilations_2_2 Let_def)

section \<open>Returning the variance\<close>

lemma and_then_InrE:
  assumes "and_then r f = Inr v"
  obtains a where "r = Inr a" and "f a = Inr v"
  using assms by (cases r) simp_all

lemma forward_has_variance:
  assumes "forward m x up True = Inr (res, m')"
  shows "has_variance res \<longleftrightarrow> self_llgp m \<and> self_objective m = ''regression''"
  using assms
  by (auto simp: forward_def split: if_splits elim!: and_then_InrE)

lemma predict_has_variance:
  assumes "predict m x True = Inr (res, m')"
  shows "has_variance res \<longleftrightarrow> self_llgp m \<and> self_objective m = ''regression''"
  using assms
  by (auto simp: predict_def Let_def split: if_splits elim!: and_then_InrE)

lemma get_var_ignored:
  assumes "\<not> (self_llgp m \<and> self_objective m = ''regression'')"
  shows "forward m x up True = forward m x up False" and "predict m x True = predict m x False"
  using assms by (auto simp: forward_def predict_def Let_def cong: if_cong)

text \<open>
  C7. When \<^verbatim>\<open>forward\<close> or \<^verbatim>\<open>predict\<close> is called with \<open>get_var = True\<close> and returns, a
  variance is part of the returned value if and only if the model has \<open>llgp = True\<close> and
  objective \<open>regression\<close>; in every other configuration the flag changes nothing and one
  value is returned.
\<close>

theorem variance_returned_iff:
  "(\<forall>res m'. forward m x up True = Inr (res, m') \<longrightarrow>
      (has_variance res \<longleftrightarrow> self_llgp m \<and> self_objective m = ''regression'')) \<and>
   (\<forall>res m'. predict m x True = Inr (res, m') \<longrightarrow>
      (has_variance res \<longleftrightarrow> self_llgp m \<and> self_objective m = ''regression'')) \<and>
   (\<not> (self_llgp m \<and> self_objective m = ''regression'') \<longrightarrow>
      forward m x up True = forward m x up False \<and> predict m x True = predict m x False)"
proof (intro conjI allI impI)
  fix res m'
  assume "forward m x up True = Inr (res, m')"
  then show "has_variance res \<longleftrightarrow> self_llgp m \<and> self_objective m = ''regression''"
    by (rule forward_has_variance)
next
  fix res m'
  assume "predict m x True = Inr (res, m')"
  then show "has_variance res \<longleftrightarrow> self_llgp m \<and> self_objective m = ''regression''"
    by (rule predict_has_variance)
next
  assume "\<not> (self_llgp m \<and> self_objective m = ''regression'')"
  then show "forward m x up True = forward m x up False"
    by (rule get_var_ignored)
next
  assume "\<not> (self_llgp m \<and> self_objective m = ''regression'')"
  then show "predict m x True = predict m x False"
    by (rule get_var_ignored)
qed

theorem variance_returned_iff_witness:
  "returned_shapes (forward (projr (init (example_config\<lparr>llgp := True\<rparr>)))
       example_input False True) = Inr [[2], [2]] \<and>
   returned_shapes (predict (projr (init (example_config\<lparr>llgp := True\<rparr>)))
       example_input True) = Inr [[2], [2]] \<and>
   returned_shapes (forward (projr (init example_config)) example_input False True) = Inr [[2]] \<and>
   returned_shapes (predict (projr (init example_config)) example_input True) = Inr [[2]]"
  using variance_returned_iff [of "projr (init (example_config\<lparr>llgp := True\<rparr>))"
      example_input False]
    variance_returned_iff [of "projr (init example_config)" example_input False]
  by (simp add: example_config_def example_input_def init_defs dilations_2_2 Let_def
      forward_defs predict_def returned_shapes_def)

section \<open>The antigen tower\<close>

lemma outcome_Inr [simp]: "outcome (Inr (res, m)) = Inr (res, out_layer m)"
  by (simp add: outcome_def)

lemma outcome_Inl [simp]: "outcome (Inl e) = Inl e"
  by (simp add: outcome_def)

lemma outcome_and_then: "outcome (and_then r f) = and_then r (\<lambda>v. outcome (f v))"
  by (cases r) simp_all

lemma encoder_tower_same_primary:
  "same_primary m m' \<Longrightarrow> encoder_tower m x = encoder_tower m' x"
  by (simp add: same_primary_def encoder_tower_def)

lemma point_prediction_same_primary:
  "same_primary m m' \<Longrightarrow> point_prediction m rep up = point_prediction m' rep up"
  by (simp add: same_primary_def point_prediction_def)

lemma forward_same_primary:
  assumes "same_primary m m'"
  shows "outcome (forward m x up gv) = outcome (forward m' x up gv)"
proof -
  from assms have "self_objective m = self_objective m'" "self_llgp m = self_llgp m'"
    "out_layer m = out_layer m'"
    by (simp_all add: same_primary_def)
  with encoder_tower_same_primary [OF assms] point_prediction_same_primary [OF assms]
  show ?thesis
    by (simp add: forward_def outcome_and_then if_distrib [of outcome] case_prod_beta
        cong: if_cong)
qed

lemma outcome_eqD:
  assumes "outcome r = outcome r'"
  shows "(\<exists>e. r = Inl e \<and> r' = Inl e) \<or>
         (\<exists>res s s'. r = Inr (res, s) \<and> r' = Inr (res, s') \<and> out_layer s = out_layer s')"
  using assms by (cases r; cases r') (auto simp: outcome_def)

lemma outcome_and_then_cong:
  assumes "outcome r = outcome r'"
    and "\<And>res s s'. out_layer s = out_layer s' \<Longrightarrow> outcome (k res s) = outcome (k res s')"
  shows "outcome (and_then r (case_prod k)) = outcome (and_then r' (case_prod k))"
  using outcome_eqD [OF assms(1)]
proof (elim disjE exE conjE)
  fix e
  assume "r = Inl e" and "r' = Inl e"
  then show ?thesis by simp
next
  fix res s s'
  assume "r = Inr (res, s)" and "r' = Inr (res, s')" and "out_layer s = out_layer s'"
  then show ?thesis using assms(2) [of s s' res] by simp
qed

lemma predict_with_variance:
  assumes "self_llgp m \<and> gv \<and> self_objective m = ''regression''"
  shows "predict m x gv =
           and_then (forward (m\<lparr>training := False\<rparr>) x False gv) (\<lambda>(res, m2).
           and_then (as_pair res) (\<lambda>(preds, var). Inr (PredsVar preds var, m2)))"
  using assms by (simp add: predict_def Let_def)

lemma predict_without_variance:
  assumes "\<not> (self_llgp m \<and> gv \<and> self_objective m = ''regression'')"
  shows "predict m x gv =
           and_then (forward (m\<lparr>training := False\<rparr>) x False False) (\<lambda>(res, m2).
           and_then (as_tensor res) (\<lambda>preds. Inr (Preds preds, m2)))"
  by (simp add: predict_def Let_def assms)

lemma predict_same_primary:
  assumes "same_primary m m'"
  shows "outcome (predict m x gv) = outcome (predict m' x gv)"
proof -
  from assms have "same_primary (m\<lparr>training := False\<rparr>) (m'\<lparr>training := False\<rparr>)"
    by (simp add: same_primary_def)
  then have fw: "outcome (forward (m\<lparr>training := False\<rparr>) x u g) =
             outcome (forward (m'\<lparr>training := False\<rparr>) x u g)" for u g
    by (rule forward_same_primary)
  from assms have eqs: "self_objective m = self_objective m'" "self_llgp m = self_llgp m'"
    by (simp_all add: same_primary_def)
  have pair: "outcome (and_then (as_pair res) (\<lambda>(preds, var). Inr (PredsVar preds var, s))) =
              outcome (and_then (as_pair res) (\<lambda>(preds, var). Inr (PredsVar preds var, s')))"
    if "out_layer s = out_layer s'" for res s s'
    using that by (cases res) simp_all
  have single: "outcome (and_then (as_tensor res) (\<lambda>preds. Inr (Preds preds, s))) =
                outcome (and_then (as_tensor res) (\<lambda>preds. Inr (Preds preds, s')))"
    if "out_layer s = out_layer s'" for res s s'
    using that by (cases res) simp_all
  show ?thesis
  proof (cases "self_llgp m \<and> gv \<and> self_objective m = ''regression''")
    case True
    with eqs have c': "self_llgp m' \<and> gv \<and> self_objective m' = ''regression''" by simp
    show ?thesis
      unfolding predict_with_variance [OF True] predict_with_variance [OF c']
      by (rule outcome_and_then_cong [OF fw pair])
  next
    case False
    with eqs have c': "\<not> (self_llgp m' \<and> gv \<and> self_objective m' = ''regression'')" by simp
    show ?thesis
      unfolding predict_without_variance [OF False] predict_without_variance [OF c']
      by (rule outcome_and_then_cong [OF fw single])
  qed
qed

text \<open>
  C9. Two models that differ only in their antigen adjuster and antigen layers return the
  same value from \<^verbatim>\<open>forward\<close> and from \<^verbatim>\<open>predict\<close> on every input (and leave the
  head in the same state): the antigen tower is never invoked.
\<close>

theorem antigen_tower_unused:
  assumes "same_primary m m'"
  shows "outcome (forward m x up gv) = outcome (forward m' x up gv) \<and>
         outcome (predict m x gv) = outcome (predict m' x gv)"
  using assms by (simp add: forward_same_primary predict_same_primary)

theorem antigen_tower_unused_witness:
  "same_primary (projr (init (example_config\<lparr>antigen_dim := Some 30\<rparr>)))
     ((projr (init (example_config\<lparr>antigen_dim := Some 30\<rparr>)))
        \<lparr>antigen_adjuster := None, antigen_layers := []\<rparr>) \<and>
   outcome (forward (projr (init (example_config\<lparr>antigen_dim := Some 30\<rparr>)))
       example_input False False) =
     outcome (forward ((projr (init (example_config\<lparr>antigen_dim := Some 30\<rparr>)))
        \<lparr>antigen_adjuster := None, antigen_layers := []\<rparr>) example_input False False) \<and>
   outcome (predict (projr (init (example_config\<lparr>antigen_dim := Some 30\<rparr>)))
       example_input False) =
     outcome (predict ((projr (init (example_config\<lparr>antigen_dim := Some 30\<rparr>)))
        \<lparr>antigen_adjuster := None, antigen_layers := []\<rparr>) example_input False)"
proof -
  have sp: "same_primary m (m\<lparr>antigen_adjuster := None, antigen_layers := []\<rparr>)" for m
    by (simp add: same_primary_def)
  from sp antigen_tower_unused [OF sp, of _ example_input False False] show ?thesis
    by simp
qed

section \<open>The GP head and the precision update\<close>

lemma call_out_layer_get_var_only:
  assumes "call_out_layer layer rep None (Some True) = Inr (res, ol)"
  shows "ol = layer \<and> has_variance res"
  using assms
  by (cases layer)
    (auto simp: call_out_layer_def VanillaRFFLayer_forward_def Let_def
      split: list.splits if_splits elim!: and_then_InrE)

lemma VanillaRFFLayer_forward_update:
  assumes "VanillaRFFLayer_forward gp rep (Some True) None = Inr (res, gp')"
  shows "gp' = gp\<lparr>precision_updates := Suc (precision_updates gp)\<rparr>"
  using assms
  by (simp add: VanillaRFFLayer_forward_def Let_def split: list.splits if_splits)

lemma precision_updated_otherwise:
  assumes "self_llgp m" and "out_layer m = GP gp" and "self_objective m = ''regression''"
    and "forward m x True False = Inr (res, m')"
  shows "out_layer m' = GP (gp\<lparr>precision_updates := Suc (precision_updates gp)\<rparr>)"
proof -
  from assms(1,3,4) obtain rep t ol where
    pp: "point_prediction m rep True = Inr (t, ol)" and m': "m' = m\<lparr>out_layer := ol\<rparr>"
    by (auto simp: forward_def elim!: and_then_InrE)
  from pp assms(1,2) obtain r gp' where
    call: "VanillaRFFLayer_forward gp rep (Some True) None = Inr (r, gp')" and ol: "ol = GP gp'"
    by (auto simp: point_prediction_def call_out_layer_def elim!: and_then_InrE)
  from call have "gp' = gp\<lparr>precision_updates := Suc (precision_updates gp)\<rparr>"
    by (rule VanillaRFFLayer_forward_update)
  with m' ol show ?thesis by simp
qed

text \<open>
  C10. With \<open>llgp = True\<close> and objective \<open>regression\<close>, \<^verbatim>\<open>forward\<close> with
  \<open>get_var = True\<close> calls the head with the variance request only
  (\<open>update_precision\<close> is not passed), its result does not depend on the
  \<open>update_precision\<close> argument, and the model, the head's calibration state included, is
  the same after the call. (Without \<open>get_var\<close>, \<open>update_precision = True\<close> does update
  the head: lemma \<open>precision_updated_otherwise\<close>.)
\<close>

theorem get_var_leaves_precision:
  assumes "self_llgp m" and "self_objective m = ''regression''"
  shows "forward m x up True =
           and_then (encoder_tower m x) (\<lambda>rep.
           and_then (call_out_layer (out_layer m) rep None (Some True)) (\<lambda>(res, ol).
           and_then (as_pair res) (\<lambda>(preds, var).
           and_then (squeeze1 preds) (\<lambda>p.
           Inr (PredsVar p var, m\<lparr>out_layer := ol\<rparr>))))) \<and>
         forward m x up True = forward m x False True \<and>
         (\<forall>res m'. forward m x up True = Inr (res, m') \<longrightarrow> m' = m)"
proof -
  have eq: "forward m x u True =
           and_then (encoder_tower m x) (\<lambda>rep.
           and_then (call_out_layer (out_layer m) rep None (Some True)) (\<lambda>(res, ol).
           and_then (as_pair res) (\<lambda>(preds, var).
           and_then (squeeze1 preds) (\<lambda>p.
           Inr (PredsVar p var, m\<lparr>out_layer := ol\<rparr>)))))" for u
    using assms by (simp add: forward_def)
  have "m' = m" if "forward m x up True = Inr (res, m')" for res m'
  proof -
    from that obtain rep r ol where
      call: "call_out_layer (out_layer m) rep None (Some True) = Inr (r, ol)"
      and m': "m' = m\<lparr>out_layer := ol\<rparr>"
      unfolding eq by (auto elim!: and_then_InrE)
    from call have "ol = out_layer m" by (simp add: call_out_layer_get_var_only)
    with m' show ?thesis by simp
  qed
  note unchanged = this
  show ?thesis
  proof (intro conjI allI impI)
    show "forward m x up True =
           and_then (encoder_tower m x) (\<lambda>rep.
           and_then (call_out_layer (out_layer m) rep None (Some True)) (\<lambda>(res, ol).
           and_then (as_pair res) (\<lambda>(preds, var).
           and_then (squeeze1 preds) (\<lambda>p.
           Inr (PredsVar p var, m\<lparr>out_layer := ol\<rparr>)))))"
      by (rule eq)
    show "forward m x up True = forward m x False True"
      by (simp only: eq)
    show "m' = m" if "forward m x up True = Inr (res, m')" for res m'
      using that by (rule unchanged)
  qed
qed

theorem get_var_leaves_precision_witness:
  "self_llgp (projr (init (example_config\<lparr>llgp := True\<rparr>))) \<and>
   self_objective (projr (init (example_config\<lparr>llgp := True\<rparr>))) = ''regression'' \<and>
   returned_shapes (forward (projr (init (example_config\<lparr>llgp := True\<rparr>)))
       example_input True True) = Inr [[2], [2]]"
proof -
  have a: "self_llgp (projr (init (example_config\<lparr>llgp := True\<rparr>)))"
    and b: "self_objective (projr (init (example_config\<lparr>llgp := True\<rparr>))) = ''regression''"
    by (simp_all add: example_config_def init_defs dilations_2_2 Let_def)
  have c: "returned_shapes (forward (projr (init (example_config\<lparr>llgp := True\<rparr>)))
       example_input False True) = Inr [[2], [2]]"
    by (simp add: example_config_def example_input_def init_defs dilations_2_2 Let_def
      forward_defs returned_shapes_def)
  have "forward (projr (init (example_config\<lparr>llgp := True\<rparr>))) example_input True True =
     forward (projr (init (example_config\<lparr>llgp := True\<rparr>))) example_input False True"
    using get_var_leaves_precision [OF a b, of example_input True] by (elim conjE)
  with a b c show ?thesis by simp
qed


end
